theory Spec2Isabelle
  imports Complex_Main
begin

section \<open>Data model\<close>

text \<open>
  The program is a TypeScript/GLSL particle scene driven by hand gestures.
  JavaScript numbers and GLSL floats are modelled as real numbers: every finite
  float denotes a real, and comparisons between floats agree with the comparisons of
  the reals they denote. The rounding of arithmetic results is modelled for the ratio
  smoothing only, in the section on double-precision arithmetic; everywhere else
  the arithmetic is exact.
\<close>

text \<open>\<^verbatim>\<open>enum GestureState\<close> of \<^verbatim>\<open>src/types.ts\<close>.\<close>

datatype GestureState = IDLE | TREES | SPREAD | RAIN | STORM

text \<open>\<^verbatim>\<open>interface HandPosition { x; y; active }\<close> of \<^verbatim>\<open>src/types.ts\<close>.\<close>

record HandPosition =
  hand_x :: real
  hand_y :: real
  active :: bool

record Hands =
  left :: HandPosition
  right :: HandPosition

text \<open>
  The React state of \<^verbatim>\<open>App\<close> that the gesture detector writes and the scene
  reads: \<^verbatim>\<open>gestureState\<close>, \<^verbatim>\<open>isRaining\<close>, \<^verbatim>\<open>isStormy\<close>,
  \<^verbatim>\<open>detectedGestureName\<close> and \<^verbatim>\<open>hands\<close>, with their \<^verbatim>\<open>useState\<close> initial values.
\<close>

record AppState =
  gestureState :: GestureState
  isRaining :: bool
  isStormy :: bool
  detectedGestureName :: string
  hands :: Hands

definition inactiveHand :: HandPosition where
  "inactiveHand = \<lparr>hand_x = 0, hand_y = 0, active = False\<rparr>"

definition noHands :: Hands where
  "noHands = \<lparr>left = inactiveHand, right = inactiveHand\<rparr>"

definition initialApp :: AppState where
  "initialApp = \<lparr>gestureState = IDLE, isRaining = False, isStormy = False,
     detectedGestureName = ''None'', hands = noHands\<rparr>"

text \<open>
  What the gesture recogniser hands back for one video frame: per hand a list of
  classified categories, a list of landmark points and a handedness list. The outer
  arrays and the per-hand entries may be absent (\<^verbatim>\<open>undefined\<close>), which the code
  tests for, so both levels are optional.
\<close>

record Category =
  categoryName :: string
  score :: real

record Landmark =
  lm_x :: real
  lm_y :: real

record RecognizerResult =
  gestures :: "Category list option list option"
  landmarks :: "Landmark list list option"
  handedness :: "Category list option list option"

section \<open>State-blend controller: gesture events\<close>

text \<open>The setters of \<^verbatim>\<open>App\<close> that are passed to the detector as callbacks.\<close>

definition handleToggleState :: "GestureState \<Rightarrow> AppState \<Rightarrow> AppState" where
  "handleToggleState newState s = s\<lparr>gestureState := newState\<rparr>"

text \<open>\<^verbatim>\<open>setIsRaining(prev => force !== undefined ? force : !prev)\<close>\<close>

definition toggleRain :: "bool option \<Rightarrow> AppState \<Rightarrow> AppState" where
  "toggleRain force s =
     s\<lparr>isRaining := (case force of Some f \<Rightarrow> f | None \<Rightarrow> \<not> isRaining s)\<rparr>"

definition toggleStorm :: "bool option \<Rightarrow> AppState \<Rightarrow> AppState" where
  "toggleStorm force s =
     s\<lparr>isStormy := (case force of Some f \<Rightarrow> f | None \<Rightarrow> \<not> isStormy s)\<rparr>"

definition setDetectedGestureName :: "string \<Rightarrow> AppState \<Rightarrow> AppState" where
  "setDetectedGestureName name s = s\<lparr>detectedGestureName := name\<rparr>"

definition setHands :: "Hands \<Rightarrow> AppState \<Rightarrow> AppState" where
  "setHands h s = s\<lparr>hands := h\<rparr>"

text \<open>The \<^verbatim>\<open>switch\<close> of \<^verbatim>\<open>handleGestureLogic\<close>; a label with no case changes nothing.\<close>

definition handleGestureLogic :: "string \<Rightarrow> AppState \<Rightarrow> AppState" where
  "handleGestureLogic gestureName s =
     (if gestureName = ''Closed_Fist'' then handleToggleState TREES s
      else if gestureName = ''Open_Palm'' then handleToggleState SPREAD s
      else if gestureName = ''Victory'' then toggleRain (Some True) s
      else if gestureName = ''Thumb_Up'' then toggleStorm (Some True) s
      else if gestureName = ''Pointing_Up'' then
        toggleStorm (Some False) (toggleRain (Some False) (handleToggleState IDLE s))
      else s)"

text \<open>
  Part 1 of \<^verbatim>\<open>predictWebcam\<close> ("Gesture Logic"): only the first category of the
  first hand is looked at, and only a score above 0.5 registers.
\<close>

definition firstGesture :: "RecognizerResult \<Rightarrow> Category option" where
  "firstGesture results =
     (case gestures results of
        None \<Rightarrow> None
      | Some [] \<Rightarrow> None
      | Some (firstHandGestures # _) \<Rightarrow>
          (case firstHandGestures of
             None \<Rightarrow> None
           | Some [] \<Rightarrow> None
           | Some (gesture # _) \<Rightarrow> Some gesture))"

definition gestureStep :: "RecognizerResult \<Rightarrow> AppState \<Rightarrow> AppState" where
  "gestureStep results s =
     (case firstGesture results of
        Some gesture \<Rightarrow>
          (if score gesture > 0.5
           then handleGestureLogic (categoryName gesture)
                  (setDetectedGestureName (categoryName gesture) s)
           else setDetectedGestureName ''None'' s)
      | None \<Rightarrow> setDetectedGestureName ''None'' s)"

section \<open>Hand-tracking adapter\<close>

definition WORLD_X_RANGE :: real where "WORLD_X_RANGE = 30"
definition WORLD_Y_RANGE :: real where "WORLD_Y_RANGE = 20"

text \<open>
  The handedness label chosen for the hand at \<open>index\<close>: the first category of the
  entry at that index when there is one, the index-based fallback otherwise.
\<close>

definition indexFallback :: "nat \<Rightarrow> string" where
  "indexFallback index = (if index = 0 then ''Left'' else ''Right'')"

definition handednessAt :: "RecognizerResult \<Rightarrow> nat \<Rightarrow> string" where
  "handednessAt results index =
     (case handedness results of
        None \<Rightarrow> indexFallback index
      | Some hs \<Rightarrow>
          (if length hs > index then
             (case hs ! index of
                Some (info # _) \<Rightarrow> categoryName info
              | _ \<Rightarrow> indexFallback index)
           else indexFallback index))"

text \<open>
  \<^verbatim>\<open>landmarks[9]\<close> is \<^verbatim>\<open>undefined\<close> for a landmark list shorter than ten points,
  and reading \<^verbatim>\<open>lm.x\<close> then throws: the result is \<open>None\<close>.
\<close>

definition worldHand :: "Landmark \<Rightarrow> HandPosition" where
  "worldHand lm =
     \<lparr>hand_x = (0.5 - lm_x lm) * WORLD_X_RANGE,
      hand_y = (0.5 - lm_y lm) * WORLD_Y_RANGE,
      active = True\<rparr>"

definition handData :: "Landmark list \<Rightarrow> HandPosition option" where
  "handData lms = (if length lms > 9 then Some (worldHand (lms ! 9)) else None)"

text \<open>The body of the \<^verbatim>\<open>forEach\<close> callback, and the loop over the detected hands.\<close>

definition placeHand :: "RecognizerResult \<Rightarrow> nat \<Rightarrow> Landmark list \<Rightarrow> Hands \<Rightarrow> Hands option" where
  "placeHand results index lms newHands =
     (case handData lms of
        None \<Rightarrow> None
      | Some d \<Rightarrow>
          Some (if handednessAt results index = ''Right''
                then newHands\<lparr>right := d\<rparr>
                else newHands\<lparr>left := d\<rparr>))"

fun forEachHand :: "RecognizerResult \<Rightarrow> nat \<Rightarrow> Landmark list list \<Rightarrow> Hands \<Rightarrow> Hands option" where
  "forEachHand results index [] newHands = Some newHands"
| "forEachHand results index (lms # rest) newHands =
     (case placeHand results index lms newHands of
        None \<Rightarrow> None
      | Some h \<Rightarrow> forEachHand results (Suc index) rest h)"

definition trackHands :: "RecognizerResult \<Rightarrow> Hands option" where
  "trackHands results =
     (case landmarks results of
        None \<Rightarrow> Some noHands
      | Some ls \<Rightarrow> forEachHand results 0 ls noHands)"

text \<open>
  One tick of \<^verbatim>\<open>predictWebcam\<close>. \<open>None\<close> stands for a tick with no result (the
  video time has not advanced, the recogniser returned nothing or threw). An
  exception while tracking hands is caught after the gesture callbacks have run,
  so the gesture effects stay and \<^verbatim>\<open>onHandsUpdate\<close> is not called.
\<close>

definition predictWebcam :: "RecognizerResult option \<Rightarrow> AppState \<Rightarrow> AppState" where
  "predictWebcam res s =
     (case res of
        None \<Rightarrow> s
      | Some results \<Rightarrow>
          (let s1 = gestureStep results s in
           case trackHands results of
             None \<Rightarrow> s1
           | Some newHands \<Rightarrow> setHands newHands s1))"

text \<open>A classification event for the first hand, with no landmarks.\<close>

definition gestureEvent :: "string \<Rightarrow> real \<Rightarrow> RecognizerResult" where
  "gestureEvent name conf =
     \<lparr>gestures = Some [Some [\<lparr>categoryName = name, score = conf\<rparr>]],
      landmarks = None, handedness = None\<rparr>"

text \<open>
  The label a tick registers, if any: the first category of the first hand when its
  score is above the threshold.
\<close>

definition registeredLabel :: "RecognizerResult option \<Rightarrow> string option" where
  "registeredLabel res =
     (case res of
        None \<Rightarrow> None
      | Some results \<Rightarrow>
          (case firstGesture results of
             None \<Rightarrow> None
           | Some gesture \<Rightarrow>
               (if score gesture > 0.5 then Some (categoryName gesture) else None)))"

text \<open>A sequence of ticks, oldest first.\<close>

fun runTicks :: "RecognizerResult option list \<Rightarrow> AppState \<Rightarrow> AppState" where
  "runTicks [] s = s"
| "runTicks (res # rest) s = runTicks rest (predictWebcam res s)"

text \<open>The discrete part of the state: what the gesture mapping can change.\<close>

definition discrete :: "AppState \<Rightarrow> GestureState \<times> bool \<times> bool" where
  "discrete s = (gestureState s, isRaining s, isStormy s)"

text \<open>Two detected hands that the classifier both labels "Right".\<close>

definition tenPoints :: "real \<Rightarrow> real \<Rightarrow> Landmark list" where
  "tenPoints px py =
     (let p = \<lparr>lm_x = px, lm_y = py\<rparr> in [p, p, p, p, p, p, p, p, p, p])"

definition bothRight :: RecognizerResult where
  "bothRight =
     \<lparr>gestures = None,
      landmarks = Some [tenPoints 0.25 0.5, tenPoints 0.75 0.25],
      handedness = Some [Some [\<lparr>categoryName = ''Right'', score = 0.9\<rparr>],
                         Some [\<lparr>categoryName = ''Right'', score = 0.8\<rparr>]]\<rparr>"

section \<open>State-blend controller: ratio targets and smoothing\<close>

text \<open>
  \<^verbatim>\<open>THREE.MathUtils.lerp(x, y, t)\<close> is a function of the three.js library, which
  computes \<^verbatim>\<open>(1 - t) * x + t * y\<close>.
\<close>

definition lerp :: "real \<Rightarrow> real \<Rightarrow> real \<Rightarrow> real" where
  "lerp x y t = (1 - t) * x + t * y"

text \<open>The \<^verbatim>\<open>if\<close> chain of the second \<^verbatim>\<open>useFrame\<close> of \<^verbatim>\<open>CosmicParticles\<close>.\<close>

definition formSpreadTargets :: "GestureState \<Rightarrow> bool \<Rightarrow> real \<times> real" where
  "formSpreadTargets gs stormy =
     (if gs = TREES \<or> stormy then (1, 0)
      else if gs = SPREAD then (1, 1)
      else (0, 0))"

definition targetForm :: "GestureState \<Rightarrow> bool \<Rightarrow> real" where
  "targetForm gs stormy = fst (formSpreadTargets gs stormy)"

definition targetSpread :: "GestureState \<Rightarrow> bool \<Rightarrow> real" where
  "targetSpread gs stormy = snd (formSpreadTargets gs stormy)"

definition targetRain :: "bool \<Rightarrow> real" where
  "targetRain raining = (if raining then 1 else 0)"

definition targetWave :: "bool \<Rightarrow> real" where
  "targetWave stormy = (if stormy then 1 else 0)"

definition dt :: real where "dt = 0.04"


section \<open>Particle uniforms and the per-frame update\<close>

record vec3 =
  vx :: real
  vy :: real
  vz :: real

text \<open>The \<^verbatim>\<open>uniforms\<close> object of \<^verbatim>\<open>CosmicParticles\<close> (the colour is left out).\<close>

record ShaderUniforms =
  uTime :: real
  uFormRatio :: real
  uSpreadRatio :: real
  uRainRatio :: real
  uWaveRatio :: real
  uLeftHandPos :: vec3
  uLeftHandActive :: real
  uRightHandPos :: vec3
  uRightHandActive :: real

definition zeroVec :: vec3 where
  "zeroVec = \<lparr>vx = 0, vy = 0, vz = 0\<rparr>"

definition initialUniforms :: ShaderUniforms where
  "initialUniforms =
     \<lparr>uTime = 0, uFormRatio = 0, uSpreadRatio = 0, uRainRatio = 0, uWaveRatio = 0,
      uLeftHandPos = zeroVec, uLeftHandActive = 0,
      uRightHandPos = zeroVec, uRightHandActive = 0\<rparr>"

text \<open>\<^verbatim>\<open>Vector3.lerp(v, alpha)\<close> of three.js: each component moves by \<^verbatim>\<open>(v.c - this.c) * alpha\<close>.\<close>

definition vec3_lerp :: "vec3 \<Rightarrow> vec3 \<Rightarrow> real \<Rightarrow> vec3" where
  "vec3_lerp this v alpha =
     \<lparr>vx = vx this + (vx v - vx this) * alpha,
      vy = vy this + (vy v - vy this) * alpha,
      vz = vz this + (vz v - vz this) * alpha\<rparr>"

text \<open>
  The second \<^verbatim>\<open>useFrame\<close> callback of \<^verbatim>\<open>CosmicParticles\<close>. \<open>meshCurrent\<close> is the
  test \<^verbatim>\<open>if (mesh.current)\<close>, \<open>elapsed\<close> the clock reading, \<open>props\<close> the component's
  properties as \<^verbatim>\<open>App\<close> passes them down.
\<close>

definition updateRatios :: "AppState \<Rightarrow> ShaderUniforms \<Rightarrow> ShaderUniforms" where
  "updateRatios props u =
     u\<lparr>uFormRatio := lerp (uFormRatio u) (targetForm (gestureState props) (isStormy props)) dt,
       uSpreadRatio := lerp (uSpreadRatio u) (targetSpread (gestureState props) (isStormy props)) dt,
       uRainRatio := lerp (uRainRatio u) (targetRain (isRaining props)) dt,
       uWaveRatio := lerp (uWaveRatio u) (targetWave (isStormy props)) dt\<rparr>"

definition updateHands :: "Hands \<Rightarrow> ShaderUniforms \<Rightarrow> ShaderUniforms" where
  "updateHands h u =
     (let u1 = (if active (left h)
                then u\<lparr>uLeftHandPos :=
                         vec3_lerp (uLeftHandPos u)
                           \<lparr>vx = hand_x (left h), vy = hand_y (left h), vz = 5\<rparr> 0.2,
                       uLeftHandActive := lerp (uLeftHandActive u) 1 0.1\<rparr>
                else u\<lparr>uLeftHandActive := lerp (uLeftHandActive u) 0 0.1\<rparr>)
      in (if active (right h)
          then u1\<lparr>uRightHandPos :=
                    vec3_lerp (uRightHandPos u1)
                      \<lparr>vx = hand_x (right h), vy = hand_y (right h), vz = 5\<rparr> 0.2,
                  uRightHandActive := lerp (uRightHandActive u1) 1 0.1\<rparr>
          else u1\<lparr>uRightHandActive := lerp (uRightHandActive u1) 0 0.1\<rparr>))"

definition useFrame :: "bool \<Rightarrow> real \<Rightarrow> AppState \<Rightarrow> ShaderUniforms \<Rightarrow> ShaderUniforms" where
  "useFrame meshCurrent elapsed props u =
     (if meshCurrent
      then updateHands (hands props) (updateRatios props (u\<lparr>uTime := elapsed\<rparr>))
      else u)"

text \<open>A run of rendered frames, each with its own mesh test, clock reading and properties.\<close>

fun runFrames :: "(bool \<times> real \<times> AppState) list \<Rightarrow> ShaderUniforms \<Rightarrow> ShaderUniforms" where
  "runFrames [] u = u"
| "runFrames ((meshCurrent, elapsed, props) # rest) u =
     runFrames rest (useFrame meshCurrent elapsed props u)"

definition ratiosInRange :: "ShaderUniforms \<Rightarrow> bool" where
  "ratiosInRange u =
     (0 \<le> uFormRatio u \<and> uFormRatio u \<le> 1 \<and> 0 \<le> uSpreadRatio u \<and> uSpreadRatio u \<le> 1
      \<and> 0 \<le> uRainRatio u \<and> uRainRatio u \<le> 1 \<and> 0 \<le> uWaveRatio u \<and> uWaveRatio u \<le> 1)"

section \<open>The ratio smoothing in double-precision arithmetic\<close>

text \<open>
  A JavaScript number is an IEEE 754 binary64 value, and every arithmetic operation
  returns the double nearest to the exact result, ties going to the even significand.
  A double is modelled as the real it denotes. \<open>fl64 x\<close> is the double nearest to \<open>x\<close>:
  around \<open>x\<close> the doubles are the multiples of \<open>2\<close> to the power \<open>spacingExp x\<close>, which is
  52 below the binary exponent of \<open>x\<close>, and never below \<open>-1074\<close> (the subnormal range).
  Results beyond the largest double are not modelled; every value here is at most 2.
\<close>

definition rne :: "real \<Rightarrow> int" where
  "rne y =
     (let f = \<lfloor>y\<rfloor>; d = y - of_int f in
      if d < 1 / 2 then f else if 1 / 2 < d then f + 1 else if even f then f else f + 1)"

definition spacingExp :: "real \<Rightarrow> int" where
  "spacingExp x = max \<lfloor>log 2 \<bar>x\<bar>\<rfloor> (- 1022) - 52"

definition fl64 :: "real \<Rightarrow> real" where
  "fl64 x =
     (if x = 0 then 0
      else of_int (rne (x / 2 powi spacingExp x)) * 2 powi spacingExp x)"

definition isDouble :: "real \<Rightarrow> bool" where
  "isDouble x = (fl64 x = x)"

text \<open>
  \<^verbatim>\<open>THREE.MathUtils.lerp\<close> as JavaScript evaluates \<^verbatim>\<open>(1 - t) * x + t * y\<close>: four
  operations, each rounded. The literal \<^verbatim>\<open>0.04\<close> is the double nearest to 0.04.
\<close>

definition lerp64 :: "real \<Rightarrow> real \<Rightarrow> real \<Rightarrow> real" where
  "lerp64 x y t = fl64 (fl64 (fl64 (1 - t) * x) + fl64 (t * y))"

definition dt64 :: real where "dt64 = fl64 0.04"

text \<open>The four ratio assignments of the \<^verbatim>\<open>useFrame\<close> callback, in doubles.\<close>

definition updateRatios64 :: "AppState \<Rightarrow> ShaderUniforms \<Rightarrow> ShaderUniforms" where
  "updateRatios64 props u =
     u\<lparr>uFormRatio :=
         lerp64 (uFormRatio u) (targetForm (gestureState props) (isStormy props)) dt64,
       uSpreadRatio :=
         lerp64 (uSpreadRatio u) (targetSpread (gestureState props) (isStormy props)) dt64,
       uRainRatio := lerp64 (uRainRatio u) (targetRain (isRaining props)) dt64,
       uWaveRatio := lerp64 (uWaveRatio u) (targetWave (isStormy props)) dt64\<rparr>"

text \<open>A run of frames, one entry of properties for each, and the run that holds TREES.\<close>

fun runRatios64 :: "AppState list \<Rightarrow> ShaderUniforms \<Rightarrow> ShaderUniforms" where
  "runRatios64 [] u = u"
| "runRatios64 (props # rest) u = runRatios64 rest (updateRatios64 props u)"

definition holdingTrees :: AppState where
  "holdingTrees = initialApp\<lparr>gestureState := TREES\<rparr>"

text \<open>A ratio as the code holds it: a double in \<open>[0, 1]\<close>.\<close>

definition unitDouble :: "real \<Rightarrow> bool" where
  "unitDouble r = (isDouble r \<and> 0 \<le> r \<and> r \<le> 1)"

text \<open>
  What one update does to a ratio \<open>r\<close> with target \<open>t\<close>, giving \<open>r'\<close>. It does not move
  away from the target and does not pass it. Toward 1 it moves strictly when \<open>r\<close> is
  more than twelve spacings of doubles (\<open>12 / 2 ^ 53\<close>) below 1, toward 0 strictly when
  \<open>r\<close> is at least \<open>2\<close> to the \<open>-1021\<close>. The distance to the target is 0.96 times the old
  one up to a rounding error of \<open>2\<close> to the \<open>-52\<close>. The result is again a double in
  \<open>[0, 1]\<close>.
\<close>

definition approaches :: "real \<Rightarrow> real \<Rightarrow> real \<Rightarrow> bool" where
  "approaches r t r' =
     ((t = 1 \<longrightarrow> r \<le> r' \<and> r' \<le> 1 \<and> (12 / 2 ^ 53 < 1 - r \<longrightarrow> r < r'))
      \<and> (t = 0 \<longrightarrow> 0 \<le> r' \<and> r' \<le> r \<and> (2 powi (- 1021) \<le> r \<longrightarrow> r' < r))
      \<and> \<bar>(t - r') - 0.96 * (t - r)\<bar> \<le> 1 / 2 ^ 52
      \<and> unitDouble r')"

text \<open>
  The double \<^verbatim>\<open>0.9999999999999987\<close>, twelve spacings below 1, and the double that
  \<^verbatim>\<open>1 - 0.04\<close> evaluates to.
\<close>

definition stallRatio :: real where
  "stallRatio = 9007199254740980 / 2 ^ 53"

definition a64 :: real where "a64 = 8646911284551352 / 2 ^ 53"

text \<open>
  Replaying a run: \<open>iter64 n r\<close> is \<open>n\<close> updates toward the target 1. For doubles in
  the binade below 1, written \<open>m / 2 ^ 53\<close>, one update is \<open>stepInt\<close> on the integer
  \<open>m\<close>, with \<open>rneDiv a b\<close> the quotient \<open>a / b\<close> rounded to the nearest integer, ties to
  even; \<open>iterInt\<close> repeats it while \<open>m\<close> stays in the range where that holds.
\<close>

fun iter64 :: "nat \<Rightarrow> real \<Rightarrow> real" where
  "iter64 0 r = r"
| "iter64 (Suc n) r = iter64 n (lerp64 r 1 dt64)"

definition rneDiv :: "int \<Rightarrow> int \<Rightarrow> int" where
  "rneDiv a b =
     (let q = a div b; r = a mod b in
      if 2 * r < b then q else if b < 2 * r then q + 1 else if even q then q else q + 1)"

definition stepInt :: "int \<Rightarrow> int" where
  "stepInt m =
     rneDiv (rneDiv (8646911284551352 * m) 9007199254740992 * 16 + 5764607523034235) 16"

fun iterInt :: "nat \<Rightarrow> int \<Rightarrow> int option" where
  "iterInt 0 m = Some m"
| "iterInt (Suc n) m =
     (if 4860111761999004 \<le> m \<and> m \<le> 9007199254740992 then iterInt n (stepInt m) else None)"

section \<open>Camera rig\<close>

text \<open>
  \<^verbatim>\<open>Math.atan2(y, x)\<close>, also GLSL's two-argument \<^verbatim>\<open>atan\<close>; at the origin JavaScript
  returns 0.
\<close>

definition atan2 :: "real \<Rightarrow> real \<Rightarrow> real" where
  "atan2 y x =
     (if x > 0 then arctan (y / x)
      else if x < 0 then (if y \<ge> 0 then arctan (y / x) + pi else arctan (y / x) - pi)
      else if y > 0 then pi / 2
      else if y < 0 then - (pi / 2)
      else 0)"

definition clamp :: "real \<Rightarrow> real \<Rightarrow> real \<Rightarrow> real" where
  "clamp v lo hi = max lo (min hi v)"

record Spherical =
  sph_radius :: real
  sph_theta :: real
  sph_phi :: real

text \<open>\<^verbatim>\<open>Spherical.setFromVector3\<close> and \<^verbatim>\<open>Vector3.setFromSpherical\<close> of three.js.\<close>

definition setFromVector3 :: "vec3 \<Rightarrow> Spherical" where
  "setFromVector3 v =
     (let r = sqrt (vx v * vx v + vy v * vy v + vz v * vz v) in
      if r = 0 then \<lparr>sph_radius = r, sph_theta = 0, sph_phi = 0\<rparr>
      else \<lparr>sph_radius = r, sph_theta = atan2 (vx v) (vz v),
            sph_phi = arccos (clamp (vy v / r) (- 1) 1)\<rparr>)"

definition setFromSpherical :: "Spherical \<Rightarrow> vec3" where
  "setFromSpherical s =
     (let sinPhiRadius = sin (sph_phi s) * sph_radius s in
      \<lparr>vx = sinPhiRadius * sin (sph_theta s),
       vy = cos (sph_phi s) * sph_radius s,
       vz = sinPhiRadius * cos (sph_theta s)\<rparr>)"

text \<open>Step 1 of the rig's \<^verbatim>\<open>useFrame\<close>: the sums over the active hands and their count.\<close>

definition handsInfluence :: "Hands \<Rightarrow> real \<times> real \<times> nat" where
  "handsInfluence h =
     (let (targetX, targetY, handsCount) =
            (if active (left h) then (hand_x (left h), hand_y (left h), 1) else (0, 0, 0))
      in (if active (right h)
          then (targetX + hand_x (right h), targetY + hand_y (right h), handsCount + 1)
          else (targetX, targetY, handsCount)))"

definition handsCount :: "Hands \<Rightarrow> nat" where
  "handsCount h = snd (snd (handsInfluence h))"

definition avgX :: "Hands \<Rightarrow> real" where
  "avgX h = fst (handsInfluence h) / real (handsCount h)"

definition avgY :: "Hands \<Rightarrow> real" where
  "avgY h = fst (snd (handsInfluence h)) / real (handsCount h)"

record CameraTargets =
  targetAzimuth :: real
  targetPolar :: real
  targetRadius :: real
  zoomSpeed :: real

text \<open>Steps 2 and 3: the targets, present only when a hand is active.\<close>

definition cameraTargets :: "Hands \<Rightarrow> GestureState \<Rightarrow> CameraTargets option" where
  "cameraTargets h gs =
     (if handsCount h > 0 then
        (if gs = SPREAD
         then Some \<lparr>targetAzimuth = (avgX h / 15) * 1.5,
                    targetPolar = (pi / 2) - 1.0,
                    targetRadius = 45, zoomSpeed = 1.0\<rparr>
         else Some \<lparr>targetAzimuth = (avgX h / 15) * 1.5,
                    targetPolar = (pi / 2) - 0.2 - (avgY h / 20) * 0.5,
                    targetRadius = 25, zoomSpeed = 2.0\<rparr>)
      else None)"

text \<open>The whole callback: the camera position after the frame.\<close>

definition CameraRig :: "Hands \<Rightarrow> GestureState \<Rightarrow> real \<Rightarrow> vec3 \<Rightarrow> vec3" where
  "CameraRig h gs delta cameraPosition =
     (case cameraTargets h gs of
        None \<Rightarrow> cameraPosition
      | Some t \<Rightarrow>
          (let spherical = setFromVector3 cameraPosition in
           setFromSpherical
             \<lparr>sph_radius = lerp (sph_radius spherical) (targetRadius t) (delta * zoomSpeed t),
              sph_theta = lerp (sph_theta spherical) (targetAzimuth t) (delta * 2.0),
              sph_phi = lerp (sph_phi spherical) (targetPolar t) (delta * 2.0)\<rparr>))"

definition twoHandsAt :: "real \<Rightarrow> real \<Rightarrow> real \<Rightarrow> real \<Rightarrow> Hands" where
  "twoHandsAt xl yl xr yr =
     \<lparr>left = \<lparr>hand_x = xl, hand_y = yl, active = True\<rparr>,
      right = \<lparr>hand_x = xr, hand_y = yr, active = True\<rparr>\<rparr>"

section \<open>Particle simulation engine: the vertex shader's position\<close>

text \<open>The GLSL built-ins the shader uses, on reals and on three-component vectors.\<close>

definition glsl_mix :: "real \<Rightarrow> real \<Rightarrow> real \<Rightarrow> real" where
  "glsl_mix x y a = x * (1 - a) + y * a"

definition glsl_smoothstep :: "real \<Rightarrow> real \<Rightarrow> real \<Rightarrow> real" where
  "glsl_smoothstep edge0 edge1 x =
     (let t = clamp ((x - edge0) / (edge1 - edge0)) 0 1 in t * t * (3 - 2 * t))"

definition glsl_step :: "real \<Rightarrow> real \<Rightarrow> real" where
  "glsl_step edge x = (if x < edge then 0 else 1)"

definition glsl_mod :: "real \<Rightarrow> real \<Rightarrow> real" where
  "glsl_mod x y = x - y * of_int \<lfloor>x / y\<rfloor>"

definition vadd :: "vec3 \<Rightarrow> vec3 \<Rightarrow> vec3" where
  "vadd a b = \<lparr>vx = vx a + vx b, vy = vy a + vy b, vz = vz a + vz b\<rparr>"

definition vsub :: "vec3 \<Rightarrow> vec3 \<Rightarrow> vec3" where
  "vsub a b = \<lparr>vx = vx a - vx b, vy = vy a - vy b, vz = vz a - vz b\<rparr>"

definition vscale :: "vec3 \<Rightarrow> real \<Rightarrow> vec3" where
  "vscale a k = \<lparr>vx = vx a * k, vy = vy a * k, vz = vz a * k\<rparr>"

definition vmix :: "vec3 \<Rightarrow> vec3 \<Rightarrow> real \<Rightarrow> vec3" where
  "vmix a b t =
     \<lparr>vx = glsl_mix (vx a) (vx b) t, vy = glsl_mix (vy a) (vy b) t,
      vz = glsl_mix (vz a) (vz b) t\<rparr>"

definition vlength :: "vec3 \<Rightarrow> real" where
  "vlength a = sqrt (vx a * vx a + vy a * vy a + vz a * vz a)"

definition vdistance :: "vec3 \<Rightarrow> vec3 \<Rightarrow> real" where
  "vdistance a b = vlength (vsub a b)"

text \<open>GLSL leaves \<^verbatim>\<open>normalize\<close> of the zero vector undefined; here it is the zero vector.\<close>

definition vnormalize :: "vec3 \<Rightarrow> vec3" where
  "vnormalize a = vscale a (1 / vlength a)"

definition vcross :: "vec3 \<Rightarrow> vec3 \<Rightarrow> vec3" where
  "vcross a b =
     \<lparr>vx = vy a * vz b - vz a * vy b,
      vy = vz a * vx b - vx a * vz b,
      vz = vx a * vy b - vy a * vx b\<rparr>"

text \<open>The per-particle attributes: \<^verbatim>\<open>position\<close> (chaos), \<^verbatim>\<open>aRandom\<close>, \<^verbatim>\<open>aTreePos\<close>, \<^verbatim>\<open>aIsLeaf\<close>.\<close>

record Attributes =
  a_position :: vec3
  aRandom :: vec3
  aTreePos :: vec3
  aIsLeaf :: real

text \<open>Layer 1, "Base Form Logic": \<^verbatim>\<open>target\<close> after the sway.\<close>

definition swayTarget :: "ShaderUniforms \<Rightarrow> Attributes \<Rightarrow> vec3" where
  "swayTarget u a =
     (let target = aTreePos a in
      if uFormRatio u > 0.01 then
        (let swayIntensity = (if aIsLeaf a > 0.5 then 0.5 else 0.1);
             swaySpeed = 1.0;
             wind = sin (uTime u * swaySpeed + vx target * 0.5) * (vy target * 0.05)
         in target\<lparr>vx := vx target + wind * swayIntensity * uFormRatio u,
                   vz := vz target
                         + cos (uTime u * swaySpeed * 0.8 + vz target * 0.5)
                           * (vy target * 0.05) * swayIntensity * uFormRatio u\<rparr>)
      else target)"

text \<open>Layer 2, "Spreading Roots Logic": leaves float, trunks melt into roots.\<close>

definition rootTarget :: "ShaderUniforms \<Rightarrow> Attributes \<Rightarrow> vec3 \<Rightarrow> vec3" where
  "rootTarget u a target =
     (let groundLevel = - 5.0 + vy (aRandom a) * 1.5;
          angle = atan2 (vz target) (vx target);
          dist = sqrt (vx target * vx target + vz target * vz target);
          tendrilNoise = sin (angle * 12.0) + sin (angle * 23.0 + vx (aRandom a) * 10.0);
          tendrilStrength = glsl_smoothstep (- 1.0) 1.0 tendrilNoise;
          expansionBase = 2.0 + (uSpreadRatio u * 15.0);
          jagged = 1.0 + tendrilStrength * 0.5 + vz (aRandom a) * 0.5;
          newDist = dist * (1.0 + uSpreadRatio u * 2.5)
                    + (expansionBase * jagged * uSpreadRatio u)
      in \<lparr>vx = cos angle * newDist,
          vy = (if uSpreadRatio u > 0.8
                then groundLevel + sin (newDist * 0.5 - uTime u * 5.0) * 0.5
                else groundLevel),
          vz = sin angle * newDist\<rparr>)"

definition spreadTarget :: "ShaderUniforms \<Rightarrow> Attributes \<Rightarrow> vec3 \<Rightarrow> vec3" where
  "spreadTarget u a target =
     (if uSpreadRatio u > 0.0 then
        (if aIsLeaf a > 0.5 then
           \<lparr>vx = vx target + (vx target - 0.0) * 0.1 * uSpreadRatio u,
            vy = vy target + sin (uTime u * 2.0 + vx target) * 0.5 * uSpreadRatio u,
            vz = vz target + (vz target - 0.0) * 0.1 * uSpreadRatio u\<rparr>
         else vmix target (rootTarget u a target) (uSpreadRatio u))
      else target)"

text \<open>The target position after layers 1 and 2.\<close>

definition morphedTarget :: "ShaderUniforms \<Rightarrow> Attributes \<Rightarrow> vec3" where
  "morphedTarget u a = spreadTarget u a (swayTarget u a)"

text \<open>Layer 3: chaos position mixed toward the target.\<close>

definition chaosBlend :: "ShaderUniforms \<Rightarrow> Attributes \<Rightarrow> vec3 \<Rightarrow> vec3" where
  "chaosBlend u a target =
     (let formationFactor = max (uFormRatio u) (uSpreadRatio u) in
      vmix (a_position a) target (glsl_smoothstep 0.0 1.0 formationFactor))"

text \<open>Layer 4, "Sea/Wave Logic".\<close>

definition waveOverlay :: "ShaderUniforms \<Rightarrow> vec3 \<Rightarrow> vec3" where
  "waveOverlay u mixedPos =
     (if uWaveRatio u > 0.0 then
        (let waveHeight = 0.5 + (uWaveRatio u * 2.0);
             waveSpeed = 1.0 + (uWaveRatio u * 3.0);
             wave = sin (vx mixedPos * 0.5 + uTime u * waveSpeed)
                    * cos (vz mixedPos * 0.3 + uTime u * waveSpeed * 0.8);
             isTreeForm = glsl_smoothstep 0.2 0.8 (uFormRatio u);
             wavePosChaos = mixedPos\<lparr>vy := wave * waveHeight\<rparr>;
             wavePosTree = mixedPos\<lparr>vy := vy mixedPos + wave * waveHeight\<rparr>;
             targetWavePos = vmix wavePosChaos wavePosTree isTreeForm
         in vmix mixedPos targetWavePos (uWaveRatio u))
      else mixedPos)"

text \<open>Layer 5, "Rain Logic".\<close>

definition isRain :: "ShaderUniforms \<Rightarrow> Attributes \<Rightarrow> real" where
  "isRain u a = glsl_step 0.95 (vx (aRandom a)) * uRainRatio u"

definition rainPosition :: "ShaderUniforms \<Rightarrow> Attributes \<Rightarrow> vec3 \<Rightarrow> vec3" where
  "rainPosition u a target =
     (let fallSpeed = 15.0 + vy (aRandom a) * 10.0;
          yOffset = glsl_mod (uTime u * fallSpeed) 40.0
      in \<lparr>vx = vx target + (vy (aRandom a) - 0.5) * 30.0,
          vy = 20.0 - yOffset,
          vz = vz target + (vz (aRandom a) - 0.5) * 30.0\<rparr>)"

definition rainOverride :: "ShaderUniforms \<Rightarrow> Attributes \<Rightarrow> vec3 \<Rightarrow> vec3 \<Rightarrow> vec3" where
  "rainOverride u a target mixedPos =
     (if isRain u a > 0.0 then rainPosition u a target else mixedPos)"

text \<open>
  Layer 6, "Interaction Logic": the offset one hand adds. \<open>swirlSign\<close> is \<open>1\<close> for the left
  hand (attraction plus swirl) and \<open>- 1\<close> for the right hand (attraction minus swirl).
\<close>

definition interactRadius :: real where "interactRadius = 8.0"

definition handOffset :: "real \<Rightarrow> real \<Rightarrow> vec3 \<Rightarrow> vec3 \<Rightarrow> vec3" where
  "handOffset swirlSign handActive handPos mixedPos =
     (if handActive > 0.5 then
        (let dist = vdistance mixedPos handPos in
         if dist < interactRadius then
           (let factor = glsl_smoothstep interactRadius 0.0 dist;
                attraction = vscale (vsub handPos mixedPos) 0.9;
                dir = vnormalize (vsub mixedPos handPos);
                swirl = vscale (vcross \<lparr>vx = 0.0, vy = 1.0, vz = 0.0\<rparr> dir) 4.0
            in vscale (vscale (vadd attraction (vscale swirl swirlSign)) factor) 0.6)
         else zeroVec)
      else zeroVec)"

definition interactOffset :: "ShaderUniforms \<Rightarrow> vec3 \<Rightarrow> vec3" where
  "interactOffset u mixedPos =
     vadd (vadd zeroVec (handOffset 1 (uLeftHandActive u) (uLeftHandPos u) mixedPos))
          (handOffset (- 1) (uRightHandActive u) (uRightHandPos u) mixedPos)"

text \<open>The position before the hand interaction, and the final \<^verbatim>\<open>mixedPos\<close> of \<^verbatim>\<open>main\<close>.\<close>

definition layeredPosition :: "ShaderUniforms \<Rightarrow> Attributes \<Rightarrow> vec3" where
  "layeredPosition u a =
     (let target = morphedTarget u a in
      rainOverride u a target (waveOverlay u (chaosBlend u a target)))"

definition vertexPosition :: "ShaderUniforms \<Rightarrow> Attributes \<Rightarrow> vec3" where
  "vertexPosition u a =
     (let mixedPos = layeredPosition u a in vadd mixedPos (interactOffset u mixedPos))"

text \<open>
  A trunk particle among the rain-eligible ones (first jitter component 0.95), and
  uniforms with the rain ratio at 1 and an active left hand one unit from its column.
\<close>

definition rainParticle :: Attributes where
  "rainParticle =
     \<lparr>a_position = \<lparr>vx = 3, vy = 4, vz = 5\<rparr>,
      aRandom = \<lparr>vx = 0.95, vy = 0.5, vz = 0.5\<rparr>,
      aTreePos = \<lparr>vx = pi, vy = 20, vz = 0\<rparr>, aIsLeaf = 0\<rparr>"

definition rainUniforms :: ShaderUniforms where
  "rainUniforms =
     initialUniforms\<lparr>uRainRatio := 1, uLeftHandPos := \<lparr>vx = pi + 1, vy = 20, vz = 0\<rparr>,
                     uLeftHandActive := 1\<rparr>"

section \<open>The engine with clamped ratios\<close>



section \<open>Particle archetype generator\<close>












section \<open>Properties of the ratio targets\<close>

text \<open>
  C1 (as the code has it). Each frame the targets are: \<open>targetForm = 1\<close> if the state
  is TREES or stormy holds, else 1 if the state is SPREAD, else 0;
  \<open>targetSpread = 1\<close> exactly when the state is SPREAD and stormy does not hold,
  and 0 otherwise; \<open>targetRain = 1\<close> iff raining; \<open>targetWave = 1\<close> iff stormy.
\<close>

theorem ratio_targets:
  "targetForm gs stormy = (if gs = TREES \<or> stormy then 1 else if gs = SPREAD then 1 else 0)
   \<and> targetSpread gs stormy = (if gs = SPREAD \<and> \<not> stormy then 1 else 0)
   \<and> targetRain raining = (if raining then 1 else 0)
   \<and> targetWave stormy = (if stormy then 1 else 0)"
  by (cases gs) (simp_all add: targetForm_def targetSpread_def formSpreadTargets_def
      targetRain_def targetWave_def)

text \<open>
  The claim as written, "targetSpread = 1 if and only if the state is SPREAD", fails
  in the state SPREAD while stormy: the storm branch comes first and sets the
  spread target to 0.
\<close>

theorem ratio_targets_spread_counterexample:
  "\<not> (targetSpread SPREAD True = 1 \<longleftrightarrow> SPREAD = SPREAD)"
  by (simp add: targetSpread_def formSpreadTargets_def)

section \<open>Properties of the gesture mapping\<close>

lemma discrete_simps:
  "discrete (setHands h s) = discrete s"
  "discrete (setDetectedGestureName n s) = discrete s"
  by (simp_all add: discrete_def setHands_def setDetectedGestureName_def)

lemma name_simps:
  "detectedGestureName (setHands h s) = detectedGestureName s"
  "detectedGestureName (setDetectedGestureName n s) = n"
  "detectedGestureName (handleGestureLogic g s) = detectedGestureName s"
  by (simp_all add: setHands_def setDetectedGestureName_def handleGestureLogic_def
      handleToggleState_def toggleRain_def toggleStorm_def)

lemma discrete_handle:
  "discrete (handleGestureLogic g (setDetectedGestureName n s)) = discrete (handleGestureLogic g s)"
  by (simp add: discrete_def setDetectedGestureName_def handleGestureLogic_def
      handleToggleState_def toggleRain_def toggleStorm_def)

lemma predict_Some:
  "predictWebcam (Some results) s =
     (case trackHands results of None \<Rightarrow> gestureStep results s
      | Some h \<Rightarrow> setHands h (gestureStep results s))"
  by (simp add: predictWebcam_def Let_def)

text \<open>
  C2. A classification event registers only when its confidence strictly exceeds 0.5.
  For a tick whose first category of the first hand is \<open>g\<close>: with a score of at
  most 0.5 (in particular exactly 0.5) the discrete state is unchanged and the reported
  label is "None"; with a score above 0.5 (for instance 0.51) the discrete state is the
  one the gesture mapping gives for the label, and the reported label is that label.
\<close>

theorem confidence_threshold:
  assumes "firstGesture results = Some g"
  shows "(score g \<le> 0.5 \<longrightarrow>
            discrete (predictWebcam (Some results) s) = discrete s
          \<and> detectedGestureName (predictWebcam (Some results) s) = ''None'')
       \<and> (score g > 0.5 \<longrightarrow>
            discrete (predictWebcam (Some results) s)
              = discrete (handleGestureLogic (categoryName g) s)
          \<and> detectedGestureName (predictWebcam (Some results) s) = categoryName g)"
  using assms
  by (auto simp: predict_Some gestureStep_def discrete_simps name_simps discrete_handle
      split: option.splits)

lemma firstGesture_event: "firstGesture (gestureEvent n c) = Some \<lparr>categoryName = n, score = c\<rparr>"
  by (simp add: firstGesture_def gestureEvent_def)

text \<open>
  At the initial state, "Closed_Fist" at confidence 0.5 leaves IDLE and reports "None",
  and at confidence 0.51 gives TREES and reports "Closed_Fist".
\<close>

theorem confidence_threshold_witness:
  "discrete (predictWebcam (Some (gestureEvent ''Closed_Fist'' 0.5)) initialApp)
     = (IDLE, False, False)
   \<and> detectedGestureName (predictWebcam (Some (gestureEvent ''Closed_Fist'' 0.5)) initialApp)
     = ''None''
   \<and> discrete (predictWebcam (Some (gestureEvent ''Closed_Fist'' 0.51)) initialApp)
     = (TREES, False, False)
   \<and> detectedGestureName (predictWebcam (Some (gestureEvent ''Closed_Fist'' 0.51)) initialApp)
     = ''Closed_Fist''"
  using confidence_threshold [OF firstGesture_event, of "''Closed_Fist''" "0.5" initialApp]
        confidence_threshold [OF firstGesture_event, of "''Closed_Fist''" "0.51" initialApp]
  by (simp add: discrete_def initialApp_def handleGestureLogic_def handleToggleState_def)

lemma handle_keeps_rain:
  "g \<noteq> ''Pointing_Up'' \<Longrightarrow> isRaining s \<Longrightarrow> isRaining (handleGestureLogic g s)"
  by (simp add: handleGestureLogic_def handleToggleState_def toggleRain_def toggleStorm_def)

lemma handle_keeps_storm:
  "g \<noteq> ''Pointing_Up'' \<Longrightarrow> isStormy s \<Longrightarrow> isStormy (handleGestureLogic g s)"
  by (simp add: handleGestureLogic_def handleToggleState_def toggleRain_def toggleStorm_def)

lemma flags_setters:
  "isRaining (setHands h s) = isRaining s" "isStormy (setHands h s) = isStormy s"
  "isRaining (setDetectedGestureName n s) = isRaining s"
  "isStormy (setDetectedGestureName n s) = isStormy s"
  by (simp_all add: setHands_def setDetectedGestureName_def)

lemma step_keeps_rain:
  assumes "registeredLabel (Some results) \<noteq> Some ''Pointing_Up''" "isRaining s"
  shows "isRaining (gestureStep results s)"
  using assms
  by (auto simp: registeredLabel_def gestureStep_def flags_setters
      intro!: handle_keeps_rain split: option.splits if_splits)

lemma step_keeps_storm:
  assumes "registeredLabel (Some results) \<noteq> Some ''Pointing_Up''" "isStormy s"
  shows "isStormy (gestureStep results s)"
  using assms
  by (auto simp: registeredLabel_def gestureStep_def flags_setters
      intro!: handle_keeps_storm split: option.splits if_splits)

lemma tick_keeps_rain:
  assumes "registeredLabel res \<noteq> Some ''Pointing_Up''" "isRaining s"
  shows "isRaining (predictWebcam res s)"
proof (cases res)
  case None
  then show ?thesis using assms by (simp add: predictWebcam_def)
next
  case (Some results)
  then show ?thesis
    using step_keeps_rain [of results s] assms
    by (simp add: predictWebcam_def Let_def flags_setters split: option.splits)
qed

lemma tick_keeps_storm:
  assumes "registeredLabel res \<noteq> Some ''Pointing_Up''" "isStormy s"
  shows "isStormy (predictWebcam res s)"
proof (cases res)
  case None
  then show ?thesis using assms by (simp add: predictWebcam_def)
next
  case (Some results)
  then show ?thesis
    using step_keeps_storm [of results s] assms
    by (simp add: predictWebcam_def Let_def flags_setters split: option.splits)
qed

lemma ticks_keep_rain:
  "\<forall>r \<in> set ticks. registeredLabel r \<noteq> Some ''Pointing_Up'' \<Longrightarrow> isRaining s
   \<Longrightarrow> isRaining (runTicks ticks s)"
  by (induction ticks arbitrary: s) (simp_all add: tick_keeps_rain)

lemma ticks_keep_storm:
  "\<forall>r \<in> set ticks. registeredLabel r \<noteq> Some ''Pointing_Up'' \<Longrightarrow> isStormy s
   \<Longrightarrow> isStormy (runTicks ticks s)"
  by (induction ticks arbitrary: s) (simp_all add: tick_keeps_storm)

lemma event_tick:
  "c > 0.5 \<Longrightarrow> discrete (predictWebcam (Some (gestureEvent n c)) s)
     = discrete (handleGestureLogic n s)"
  by (simp add: predictWebcam_def Let_def gestureStep_def firstGesture_def gestureEvent_def
      trackHands_def discrete_def setHands_def setDetectedGestureName_def
      handleGestureLogic_def handleToggleState_def toggleRain_def toggleStorm_def)

lemma scenario4:
  assumes "c1 > 0.5" "c2 > 0.5" "c3 > 0.5"
  shows "discrete (runTicks [Some (gestureEvent ''Victory'' c1),
            Some (gestureEvent ''Thumb_Up'' c2), Some (gestureEvent ''Pointing_Up'' c3)] s)
         = (IDLE, False, False)"
proof -
  let ?s1 = "predictWebcam (Some (gestureEvent ''Victory'' c1)) s"
  let ?s2 = "predictWebcam (Some (gestureEvent ''Thumb_Up'' c2)) ?s1"
  have "discrete (predictWebcam (Some (gestureEvent ''Pointing_Up'' c3)) ?s2)
        = discrete (handleGestureLogic ''Pointing_Up'' ?s2)"
    using assms(3) by (rule event_tick)
  also have "\<dots> = (IDLE, False, False)"
    by (simp add: discrete_def handleGestureLogic_def handleToggleState_def toggleRain_def
        toggleStorm_def)
  finally show ?thesis by simp
qed

text \<open>
  C3. One-way latch. Over any sequence of ticks none of which registers the label
  "Pointing_Up", a raining flag that is set stays set, and so does a stormy flag.
  The sequence Victory, Thumb_Up, Pointing_Up, each above the threshold, ends in IDLE
  with raining and stormy both false, from any state.
\<close>

theorem one_way_latch:
  "((\<forall>r \<in> set ticks. registeredLabel r \<noteq> Some ''Pointing_Up'') \<longrightarrow>
       (isRaining s \<longrightarrow> isRaining (runTicks ticks s))
     \<and> (isStormy s \<longrightarrow> isStormy (runTicks ticks s)))
   \<and> (c1 > 0.5 \<and> c2 > 0.5 \<and> c3 > 0.5 \<longrightarrow>
        discrete (runTicks [Some (gestureEvent ''Victory'' c1),
            Some (gestureEvent ''Thumb_Up'' c2), Some (gestureEvent ''Pointing_Up'' c3)] s)
         = (IDLE, False, False))"
  using ticks_keep_rain [of ticks s] ticks_keep_storm [of ticks s] scenario4 [of c1 c2 c3 s]
  by blast

lemma reg_event:
  "registeredLabel (Some (gestureEvent n c)) = (if c > 0.5 then Some n else None)"
  "registeredLabel None = None"
  by (simp_all add: registeredLabel_def firstGesture_def gestureEvent_def)

text \<open>
  A run with five registering labels other than "Pointing_Up", an empty tick and a
  "Pointing_Up" at confidence 0.5 keeps raining set; scenario 4 from the initial state.
\<close>

theorem one_way_latch_witness:
  "isRaining (runTicks [Some (gestureEvent ''Closed_Fist'' 0.9), None,
       Some (gestureEvent ''Open_Palm'' 0.9), Some (gestureEvent ''Victory'' 0.9),
       Some (gestureEvent ''Thumb_Up'' 0.9), Some (gestureEvent ''Pointing_Up'' 0.5),
       Some (gestureEvent ''Thumb_Down'' 0.9)] (initialApp\<lparr>isRaining := True\<rparr>))
   \<and> discrete (runTicks [Some (gestureEvent ''Victory'' 0.9),
            Some (gestureEvent ''Thumb_Up'' 0.9), Some (gestureEvent ''Pointing_Up'' 0.9)]
         initialApp) = (IDLE, False, False)"
  using one_way_latch [of "[Some (gestureEvent ''Closed_Fist'' 0.9), None,
       Some (gestureEvent ''Open_Palm'' 0.9), Some (gestureEvent ''Victory'' 0.9),
       Some (gestureEvent ''Thumb_Up'' 0.9), Some (gestureEvent ''Pointing_Up'' 0.5),
       Some (gestureEvent ''Thumb_Down'' 0.9)]" "initialApp\<lparr>isRaining := True\<rparr>"
       "0.9" "0.9" "0.9"]
     one_way_latch [of "[]" initialApp "0.9" "0.9" "0.9"]
  by (simp add: reg_event)

section \<open>Properties of the hand-tracking adapter\<close>

lemma handednessAt_entry:
  assumes "handedness res = Some hs" "i < length hs" "hs ! i = Some (c # cs)"
  shows "handednessAt res i = categoryName c"
  using assms by (simp add: handednessAt_def)

lemma handednessAt_fallback:
  assumes "handednessAt res i \<noteq> indexFallback i"
  shows "\<exists>hs c cs. handedness res = Some hs \<and> i < length hs \<and> hs ! i = Some (c # cs)"
  using assms
  by (auto simp: handednessAt_def split: option.splits if_splits list.splits)

lemma handednessAt_missing:
  assumes "handedness res = None \<or> (\<exists>hs. handedness res = Some hs \<and>
             (length hs \<le> i \<or> hs ! i = None \<or> hs ! i = Some []))"
  shows "handednessAt res i = indexFallback i"
  using assms by (auto simp: handednessAt_def)

lemma two_hands_same_label:
  assumes "landmarks results = Some [l0, l1]" "length l0 > 9" "length l1 > 9"
    "handedness results = Some [Some (c0 # cs0), Some (c1 # cs1)]"
    "categoryName c0 = categoryName c1"
  shows "trackHands results =
           Some (if categoryName c1 = ''Right''
                 then \<lparr>left = inactiveHand, right = worldHand (l1 ! 9)\<rparr>
                 else \<lparr>left = worldHand (l1 ! 9), right = inactiveHand\<rparr>)"
proof -
  have h0: "handednessAt results 0 = categoryName c1"
    using assms(4,5) by (simp add: handednessAt_def)
  have h1: "handednessAt results (Suc 0) = categoryName c1"
    using assms(4) by (simp add: handednessAt_def)
  show ?thesis
    using assms(1,2,3)
    by (simp add: trackHands_def placeHand_def handData_def h0 h1 noHands_def)
qed

text \<open>
  C10. With two detected hands (each with its ten or more landmarks) whose handedness
  entries carry the same label, the second hand's data ends in the single slot that
  label selects (the right slot for "Right", the left slot otherwise) and the other slot
  stays inactive at \<open>(0, 0)\<close>. The label used for a hand is the classifier's whenever the
  entry at its index is present and non-empty; the index-based fallback (index 0 gives
  "Left", any other index "Right") is used only when the handedness list or the entry
  is missing or empty.
\<close>

theorem same_handedness_overwrites:
  "(landmarks results = Some [l0, l1] \<and> length l0 > 9 \<and> length l1 > 9
      \<and> handedness results = Some [Some (c0 # cs0), Some (c1 # cs1)]
      \<and> categoryName c0 = categoryName c1 \<longrightarrow>
      hands (predictWebcam (Some results) s) =
        (if categoryName c1 = ''Right''
         then \<lparr>left = inactiveHand, right = worldHand (l1 ! 9)\<rparr>
         else \<lparr>left = worldHand (l1 ! 9), right = inactiveHand\<rparr>))
   \<and> inactiveHand = \<lparr>hand_x = 0, hand_y = 0, active = False\<rparr>
   \<and> (handedness res = Some hs \<and> i < length hs \<and> hs ! i = Some (c # cs) \<longrightarrow>
        handednessAt res i = categoryName c)
   \<and> (handednessAt res i \<noteq> indexFallback i \<longrightarrow>
        (\<exists>hs c cs. handedness res = Some hs \<and> i < length hs \<and> hs ! i = Some (c # cs)))
   \<and> (handedness res = None \<or> (\<exists>hs. handedness res = Some hs \<and>
             (length hs \<le> i \<or> hs ! i = None \<or> hs ! i = Some [])) \<longrightarrow>
        handednessAt res i = (if i = 0 then ''Left'' else ''Right''))"
proof -
  have a: "landmarks results = Some [l0, l1] \<and> length l0 > 9 \<and> length l1 > 9
      \<and> handedness results = Some [Some (c0 # cs0), Some (c1 # cs1)]
      \<and> categoryName c0 = categoryName c1 \<longrightarrow>
      hands (predictWebcam (Some results) s) =
        (if categoryName c1 = ''Right''
         then \<lparr>left = inactiveHand, right = worldHand (l1 ! 9)\<rparr>
         else \<lparr>left = worldHand (l1 ! 9), right = inactiveHand\<rparr>)"
  proof
    assume h: "landmarks results = Some [l0, l1] \<and> length l0 > 9 \<and> length l1 > 9
      \<and> handedness results = Some [Some (c0 # cs0), Some (c1 # cs1)]
      \<and> categoryName c0 = categoryName c1"
    then have "trackHands results =
           Some (if categoryName c1 = ''Right''
                 then \<lparr>left = inactiveHand, right = worldHand (l1 ! 9)\<rparr>
                 else \<lparr>left = worldHand (l1 ! 9), right = inactiveHand\<rparr>)"
      using two_hands_same_label [of results l0 l1 c0 cs0 c1 cs1] by blast
    then show "hands (predictWebcam (Some results) s) =
        (if categoryName c1 = ''Right''
         then \<lparr>left = inactiveHand, right = worldHand (l1 ! 9)\<rparr>
         else \<lparr>left = worldHand (l1 ! 9), right = inactiveHand\<rparr>)"
      by (simp add: predictWebcam_def Let_def setHands_def)
  qed
  have b: "inactiveHand = \<lparr>hand_x = 0, hand_y = 0, active = False\<rparr>"
    by (simp add: inactiveHand_def)
  have c: "handedness res = Some hs \<and> i < length hs \<and> hs ! i = Some (c # cs) \<longrightarrow>
        handednessAt res i = categoryName c"
    using handednessAt_entry by blast
  have d: "handednessAt res i \<noteq> indexFallback i \<longrightarrow>
        (\<exists>hs c cs. handedness res = Some hs \<and> i < length hs \<and> hs ! i = Some (c # cs))"
    using handednessAt_fallback by blast
  have e: "handedness res = None \<or> (\<exists>hs. handedness res = Some hs \<and>
             (length hs \<le> i \<or> hs ! i = None \<or> hs ! i = Some [])) \<longrightarrow>
        handednessAt res i = (if i = 0 then ''Left'' else ''Right'')"
    using handednessAt_missing [of res i] by (simp add: indexFallback_def)
  from a b c d e show ?thesis by blast
qed

lemma tenPoints_simps:
  "length (tenPoints px py) = 10" "tenPoints px py ! 9 = \<lparr>lm_x = px, lm_y = py\<rparr>"
  by (simp_all add: tenPoints_def Let_def)

text \<open>
  Two hands both labelled "Right": the right slot holds the second hand, the left slot
  is inactive; an empty entry at index 0 falls back to "Left".
\<close>

theorem same_handedness_overwrites_witness:
  "hands (predictWebcam (Some bothRight) initialApp)
     = \<lparr>left = \<lparr>hand_x = 0, hand_y = 0, active = False\<rparr>,
        right = \<lparr>hand_x = - 7.5, hand_y = 5, active = True\<rparr>\<rparr>
   \<and> handednessAt (bothRight\<lparr>handedness := Some [Some []]\<rparr>) 0 = ''Left''"
  using same_handedness_overwrites [of bothRight "tenPoints 0.25 0.5" "tenPoints 0.75 0.25"
      "\<lparr>categoryName = ''Right'', score = 0.9\<rparr>" "[]"
      "\<lparr>categoryName = ''Right'', score = 0.8\<rparr>" "[]" initialApp
      "bothRight\<lparr>handedness := Some [Some []]\<rparr>" "[Some []]" 0
      "\<lparr>categoryName = ''Right'', score = 0.8\<rparr>" "[]"]
  by (simp add: bothRight_def tenPoints_simps worldHand_def WORLD_X_RANGE_def
      WORLD_Y_RANGE_def inactiveHand_def indexFallback_def)

section \<open>Unfolding the shader\<close>

lemmas shader_defs = vertexPosition_def layeredPosition_def morphedTarget_def
  spreadTarget_def swayTarget_def rainOverride_def rainPosition_def isRain_def glsl_step_def
  glsl_mod_def interactOffset_def handOffset_def vadd_def vsub_def vscale_def vcross_def
  vnormalize_def vdistance_def vlength_def zeroVec_def interactRadius_def
  glsl_smoothstep_def clamp_def initialUniforms_def Let_def

section \<open>Properties of the smoothing in exact arithmetic\<close>

lemma lerp_dt: "lerp r t dt = r + (t - r) * 0.04"
  by (simp add: lerp_def dt_def field_simps)

lemma lerp_unit:
  assumes "0 \<le> r" "r \<le> 1" "0 \<le> t" "t \<le> 1"
  shows "0 \<le> lerp r t dt \<and> lerp r t dt \<le> 1"
proof -
  have "lerp r t dt = 0.96 * r + 0.04 * t"
    by (simp add: lerp_def dt_def)
  then show ?thesis using assms by simp
qed

lemma targets_unit:
  "0 \<le> targetForm gs st \<and> targetForm gs st \<le> 1"
  "0 \<le> targetSpread gs st \<and> targetSpread gs st \<le> 1"
  "0 \<le> targetRain b \<and> targetRain b \<le> 1"
  "0 \<le> targetWave b \<and> targetWave b \<le> 1"
  by (simp_all add: targetForm_def targetSpread_def formSpreadTargets_def targetRain_def
      targetWave_def)

lemma updateHands_ratios:
  "uFormRatio (updateHands h u) = uFormRatio u"
  "uSpreadRatio (updateHands h u) = uSpreadRatio u"
  "uRainRatio (updateHands h u) = uRainRatio u"
  "uWaveRatio (updateHands h u) = uWaveRatio u"
  by (simp_all add: updateHands_def Let_def)

lemma useFrame_ratios:
  "uFormRatio (useFrame True e p u)
     = lerp (uFormRatio u) (targetForm (gestureState p) (isStormy p)) dt"
  "uSpreadRatio (useFrame True e p u)
     = lerp (uSpreadRatio u) (targetSpread (gestureState p) (isStormy p)) dt"
  "uRainRatio (useFrame True e p u) = lerp (uRainRatio u) (targetRain (isRaining p)) dt"
  "uWaveRatio (useFrame True e p u) = lerp (uWaveRatio u) (targetWave (isStormy p)) dt"
  by (simp_all add: useFrame_def updateHands_ratios updateRatios_def)

lemma useFrame_inRange:
  assumes "ratiosInRange u"
  shows "ratiosInRange (useFrame m e p u)"
proof (cases m)
  case False
  then show ?thesis using assms by (simp add: useFrame_def)
next
  case True
  then show ?thesis
    using assms lerp_unit targets_unit
    unfolding ratiosInRange_def by (simp add: useFrame_ratios)
qed

lemma runFrames_inRange:
  "ratiosInRange u \<Longrightarrow> ratiosInRange (runFrames frames u)"
  by (induction frames u rule: runFrames.induct) (simp_all add: useFrame_inRange)

text \<open>
  C9. The four ratio uniforms start at 0 and are all in \<open>[0, 1]\<close> after any run of
  frames, whatever the properties, clock readings and mesh tests of the frames are.
\<close>

theorem ratios_invariant:
  "uFormRatio initialUniforms = 0 \<and> uSpreadRatio initialUniforms = 0
   \<and> uRainRatio initialUniforms = 0 \<and> uWaveRatio initialUniforms = 0
   \<and> ratiosInRange (runFrames frames initialUniforms)"
proof -
  have "ratiosInRange initialUniforms"
    by (simp add: ratiosInRange_def initialUniforms_def)
  then show ?thesis
    by (simp add: runFrames_inRange) (simp add: initialUniforms_def)
qed

section \<open>Clamping of the ratios\<close>




section \<open>Rounding to the nearest double\<close>

text \<open>
  Rounding to the nearest integer with ties to even is monotone, exact on integers and
  off by at most a half. \<open>fl64\<close> is therefore monotone on the non-negative reals, off
  by at most half a spacing, and leaves every double as it is.
\<close>

lemma rne_cases: "rne y = \<lfloor>y\<rfloor> \<or> rne y = \<lfloor>y\<rfloor> + 1"
  by (simp add: rne_def Let_def)

lemma rne_of_int: "rne (of_int n) = n"
  by (simp add: rne_def Let_def)

lemma rne_ge: "of_int N - 1 / 2 < y \<Longrightarrow> N \<le> rne y"
proof -
  assume a: "of_int N - 1 / 2 < y"
  show ?thesis
  proof (cases "of_int N \<le> y")
    case True
    then have "N \<le> \<lfloor>y\<rfloor>" by (simp add: le_floor_iff)
    then show ?thesis using rne_cases [of y] by linarith
  next
    case False
    then have "y < of_int N" by simp
    moreover have "of_int (N - 1) \<le> y" using a by simp
    ultimately have f: "\<lfloor>y\<rfloor> = N - 1" by (intro floor_unique) simp_all
    have "1 / 2 < y - of_int \<lfloor>y\<rfloor>" using a by (simp add: f)
    then show ?thesis by (simp add: rne_def Let_def f)
  qed
qed

lemma rne_le: "y < of_int N + 1 / 2 \<Longrightarrow> rne y \<le> N"
proof -
  assume a: "y < of_int N + 1 / 2"
  show ?thesis
  proof (cases "y < of_int N")
    case True
    then have "\<lfloor>y\<rfloor> < N" by (simp add: floor_less_iff)
    then show ?thesis using rne_cases [of y] by linarith
  next
    case False
    then have "of_int N \<le> y" by simp
    moreover have "y < of_int N + 1" using a by simp
    ultimately have f: "\<lfloor>y\<rfloor> = N" by (intro floor_unique) simp_all
    have "y - of_int \<lfloor>y\<rfloor> < 1 / 2" using a by (simp add: f)
    then show ?thesis by (simp add: rne_def Let_def f)
  qed
qed

lemma rne_err: "\<bar>of_int (rne y) - y\<bar> \<le> 1 / 2"
proof -
  have "of_int \<lfloor>y\<rfloor> \<le> y" "y < of_int \<lfloor>y\<rfloor> + 1" by simp_all
  then show ?thesis
    by (auto simp: rne_def Let_def abs_le_iff)
qed

lemma rne_mono: "x \<le> y \<Longrightarrow> rne x \<le> rne y"
proof -
  assume a: "x \<le> y"
  have "\<bar>of_int (rne x) - x\<bar> \<le> 1 / 2" by (rule rne_err)
  then have "of_int (rne x) - 1 / 2 \<le> y" using a by linarith
  show ?thesis
  proof (cases "of_int (rne x) - 1 / 2 < y")
    case True
    then show ?thesis by (rule rne_ge)
  next
    case False
    then have y: "y = of_int (rne x) - 1 / 2" using \<open>of_int (rne x) - 1 / 2 \<le> y\<close> by simp
    with a \<open>\<bar>of_int (rne x) - x\<bar> \<le> 1 / 2\<close> have x: "x = y" by linarith
    then show ?thesis by simp
  qed
qed

lemma rne_nonneg: "0 \<le> y \<Longrightarrow> 0 \<le> rne y"
  using rne_ge [of 0 y] by simp

lemma two_powi_pos: "0 < (2::real) powi k"
  by simp

lemma powr_powi: "(2::real) powr (of_int k) = 2 powi k"
  by (simp add: powr_real_of_int')

lemma powr_powi1: "(2::real) powr (of_int k + 1) = 2 powi (k + 1)"
  using powr_powi [of "k + 1"] by simp

lemma log2_iff:
  assumes "0 < x"
  shows "\<lfloor>log 2 x\<rfloor> = k \<longleftrightarrow> 2 powi k \<le> x \<and> x < 2 powi (k + 1)"
  using floor_log_eq_powr_iff [of x 2 k] assms by (simp only: powr_powi powr_powi1)

lemma log2_bounds:
  assumes "0 < x"
  shows "2 powi \<lfloor>log 2 x\<rfloor> \<le> x" and "x < 2 powi (\<lfloor>log 2 x\<rfloor> + 1)"
  using log2_iff [OF assms, of "\<lfloor>log 2 x\<rfloor>"] by simp_all

lemma log2_eq:
  assumes "0 < x" "2 powi k \<le> x" "x < 2 powi (k + 1)"
  shows "\<lfloor>log 2 x\<rfloor> = k"
  using log2_iff [OF assms(1), of k] assms(2,3) by simp

lemma fl64_binade:
  assumes "- 1022 \<le> k" "2 powi k \<le> x" "x < 2 powi (k + 1)"
  shows "fl64 x = of_int (rne (x / 2 powi (k - 52))) * 2 powi (k - 52)"
proof -
  have x: "0 < x" using assms(2) two_powi_pos [of k] by linarith
  have "\<lfloor>log 2 x\<rfloor> = k" using x assms(2,3) by (rule log2_eq)
  then have "spacingExp x = k - 52" using x assms(1) by (simp add: spacingExp_def)
  then show ?thesis using x by (simp add: fl64_def)
qed

lemma fl64_subnormal:
  assumes "0 < x" "x < 2 powi (- 1022)"
  shows "fl64 x = of_int (rne (x / 2 powi (- 1074))) * 2 powi (- 1074)"
proof -
  have "\<lfloor>log 2 x\<rfloor> < - 1022"
  proof (rule ccontr)
    assume "\<not> \<lfloor>log 2 x\<rfloor> < - 1022"
    then have "(2::real) powi (- 1022) \<le> 2 powi \<lfloor>log 2 x\<rfloor>"
      by (intro power_int_increasing) simp_all
    then show False using log2_bounds(1) [OF assms(1)] assms(2) by linarith
  qed
  then have "spacingExp x = - 1074" using assms(1) by (simp add: spacingExp_def)
  then show ?thesis using assms(1) by (simp add: fl64_def)
qed

lemma fl64_zero: "fl64 0 = 0"
  by (simp add: fl64_def)

lemma fl64_nonneg: "0 \<le> x \<Longrightarrow> 0 \<le> fl64 x"
  by (simp add: fl64_def rne_nonneg)

lemma spacingExp_upper:
  assumes "0 < x"
  shows "x < 2 powi (spacingExp x + 53)"
proof -
  have "x < 2 powi (\<lfloor>log 2 x\<rfloor> + 1)" using assms by (rule log2_bounds(2))
  also have "\<dots> \<le> 2 powi (spacingExp x + 53)"
    using assms by (intro power_int_increasing) (simp_all add: spacingExp_def)
  finally show ?thesis .
qed

lemma spacingExp_lower:
  assumes "0 < x" "- 1074 < spacingExp x"
  shows "2 powi (spacingExp x + 52) \<le> x"
proof -
  have "spacingExp x + 52 = \<lfloor>log 2 x\<rfloor>"
    using assms by (simp add: spacingExp_def max_def split: if_splits)
  then show ?thesis using log2_bounds(1) [OF assms(1)] by simp
qed

lemma powi_split: "(2::real) powi (e + n) = 2 powi e * 2 powi n"
  by (simp add: power_int_add)

lemma fl64_upper:
  assumes "0 < x"
  shows "fl64 x \<le> 2 powi (spacingExp x + 53)"
proof -
  let ?P = "(2::real) powi spacingExp x"
  have P: "0 < ?P" by simp
  have "x < ?P * 2 ^ 53"
    using spacingExp_upper [OF assms] by (simp add: powi_split)
  then have "x / ?P < 2 ^ 53"
    using P by (simp add: field_simps)
  then have "x / ?P \<le> of_int (2 ^ 53)" by simp
  then have "rne (x / ?P) \<le> 2 ^ 53"
    using rne_mono [of "x / ?P" "of_int (2 ^ 53)"] by (simp only: rne_of_int)
  then have "(of_int (rne (x / ?P)) :: real) \<le> of_int (2 ^ 53)" by (simp only: of_int_le_iff)
  then have "of_int (rne (x / ?P)) * ?P \<le> 2 ^ 53 * ?P"
    using P by (intro mult_right_mono) simp_all
  then show ?thesis using assms by (simp add: fl64_def powi_split mult.commute)
qed

lemma fl64_lower:
  assumes "0 < x" "- 1074 < spacingExp x"
  shows "2 powi (spacingExp x + 52) \<le> fl64 x"
proof -
  let ?P = "(2::real) powi spacingExp x"
  have P: "0 < ?P" by simp
  have "?P * 2 ^ 52 \<le> x"
    using spacingExp_lower [OF assms] by (simp add: powi_split)
  then have "2 ^ 52 \<le> x / ?P"
    using P by (simp add: field_simps)
  then have "of_int (2 ^ 52) \<le> x / ?P" by simp
  then have "2 ^ 52 \<le> rne (x / ?P)"
    using rne_mono [of "of_int (2 ^ 52)" "x / ?P"] by (simp only: rne_of_int)
  then have "(of_int (2 ^ 52) :: real) \<le> of_int (rne (x / ?P))" by (simp only: of_int_le_iff)
  then have "2 ^ 52 * ?P \<le> of_int (rne (x / ?P)) * ?P"
    using P by (intro mult_right_mono) simp_all
  then show ?thesis using assms by (simp add: fl64_def powi_split mult.commute)
qed

lemma spacingExp_mono:
  assumes "0 < x" "x \<le> y"
  shows "spacingExp x \<le> spacingExp y"
proof -
  have "log 2 x \<le> log 2 y" using assms by simp
  then have "\<lfloor>log 2 x\<rfloor> \<le> \<lfloor>log 2 y\<rfloor>" by (rule floor_mono)
  then show ?thesis using assms by (simp add: spacingExp_def)
qed

lemma fl64_mono:
  assumes "0 \<le> x" "x \<le> y"
  shows "fl64 x \<le> fl64 y"
proof (cases "x = 0")
  case True
  then show ?thesis using assms fl64_nonneg [of y] by (simp add: fl64_zero)
next
  case False
  then have x: "0 < x" and y: "0 < y" using assms by simp_all
  have le: "spacingExp x \<le> spacingExp y" using x assms(2) by (rule spacingExp_mono)
  show ?thesis
  proof (cases "spacingExp x = spacingExp y")
    case True
    let ?P = "(2::real) powi spacingExp y"
    have "x / ?P \<le> y / ?P" using assms(2) by (simp add: divide_right_mono)
    then have "rne (x / ?P) \<le> rne (y / ?P)" by (rule rne_mono)
    then have "(of_int (rne (x / ?P)) :: real) \<le> of_int (rne (y / ?P))"
      by (simp only: of_int_le_iff)
    then have "of_int (rne (x / ?P)) * ?P \<le> of_int (rne (y / ?P)) * ?P"
      by (intro mult_right_mono) simp_all
    then show ?thesis using x y True by (simp add: fl64_def)
  next
    case False
    then have lt: "spacingExp x < spacingExp y" using le by simp
    have "- 1074 \<le> spacingExp x" by (simp add: spacingExp_def)
    then have big: "- 1074 < spacingExp y" using lt by simp
    have "fl64 x \<le> 2 powi (spacingExp x + 53)" using x by (rule fl64_upper)
    also have "\<dots> \<le> 2 powi (spacingExp y + 52)"
      using lt by (intro power_int_increasing) simp_all
    also have "\<dots> \<le> fl64 y" using y big by (rule fl64_lower)
    finally show ?thesis .
  qed
qed

lemma fl64_error:
  "\<bar>fl64 x - x\<bar> \<le> 2 powi spacingExp x / 2"
proof (cases "x = 0")
  case True
  then show ?thesis by (simp add: fl64_zero)
next
  case False
  let ?P = "(2::real) powi spacingExp x"
  have P: "0 < ?P" by simp
  have "fl64 x - x = (of_int (rne (x / ?P)) - x / ?P) * ?P"
    using False by (simp add: fl64_def field_simps)
  then have "\<bar>fl64 x - x\<bar> = \<bar>of_int (rne (x / ?P)) - x / ?P\<bar> * ?P"
    using P by (simp add: abs_mult)
  also have "\<dots> \<le> (1 / 2) * ?P"
    using rne_err [of "x / ?P"] P by (intro mult_right_mono) simp_all
  finally show ?thesis by simp
qed

lemma spacingExp_below:
  assumes "0 < x" "x < 2 powi n" "- 1022 < n"
  shows "spacingExp x \<le> n - 53"
proof -
  have "\<lfloor>log 2 x\<rfloor> < n"
  proof (rule ccontr)
    assume "\<not> \<lfloor>log 2 x\<rfloor> < n"
    then have "(2::real) powi n \<le> 2 powi \<lfloor>log 2 x\<rfloor>"
      by (intro power_int_increasing) simp_all
    then show False using log2_bounds(1) [OF assms(1)] assms(2) by linarith
  qed
  then show ?thesis using assms(1,3) by (simp add: spacingExp_def)
qed

lemma fl64_error_below:
  assumes "0 \<le> x" "x < 2 powi n" "- 1022 < n"
  shows "\<bar>fl64 x - x\<bar> \<le> 2 powi (n - 54)"
proof (cases "x = 0")
  case True
  then show ?thesis by (simp add: fl64_zero)
next
  case False
  then have x: "0 < x" using assms(1) by simp
  have "\<bar>fl64 x - x\<bar> \<le> 2 powi spacingExp x / 2" by (rule fl64_error)
  also have "\<dots> \<le> 2 powi (n - 53) / 2"
    using spacingExp_below [OF x assms(2,3)]
    by (intro divide_right_mono power_int_increasing) simp_all
  also have "\<dots> = 2 powi (n - 54)"
    using power_int_add [of "2::real" "n - 54" 1] by simp
  finally show ?thesis .
qed

lemma fl64_grid:
  assumes "0 < x"
  shows "fl64 x = of_int (rne (x / 2 powi spacingExp x)) * 2 powi spacingExp x"
  using assms by (simp add: fl64_def)

lemma rne_range:
  assumes "0 < x"
  shows "0 \<le> rne (x / 2 powi spacingExp x)"
    and "rne (x / 2 powi spacingExp x) \<le> 2 ^ 53"
    and "- 1074 < spacingExp x \<Longrightarrow> 2 ^ 52 \<le> rne (x / 2 powi spacingExp x)"
proof -
  let ?P = "(2::real) powi spacingExp x"
  have P: "0 < ?P" by simp
  show "0 \<le> rne (x / ?P)" using assms by (intro rne_nonneg) simp
  have "x < ?P * 2 ^ 53"
    using spacingExp_upper [OF assms] by (simp add: powi_split)
  then have "x / ?P \<le> of_int (2 ^ 53)" using P by (simp add: field_simps)
  then show "rne (x / ?P) \<le> 2 ^ 53"
    using rne_mono [of "x / ?P" "of_int (2 ^ 53)"] by (simp only: rne_of_int)
  assume big: "- 1074 < spacingExp x"
  have "?P * 2 ^ 52 \<le> x"
    using spacingExp_lower [OF assms big] by (simp add: powi_split)
  then have "of_int (2 ^ 52) \<le> x / ?P" using P by (simp add: field_simps)
  then show "2 ^ 52 \<le> rne (x / ?P)"
    using rne_mono [of "of_int (2 ^ 52)" "x / ?P"] by (simp only: rne_of_int)
qed

lemma powi_52: "of_int (2 ^ 52) * (2::real) powi e = 2 powi (e + 52)"
  by (simp add: power_int_add mult.commute)

lemma powi_53: "of_int (2 ^ 53) * (2::real) powi e = 2 powi (e + 53)"
  by (simp add: power_int_add mult.commute)

lemma fl64_binade':
  assumes "- 1074 \<le> e" "2 powi (e + 52) \<le> x" "x < 2 powi (e + 53)"
  shows "fl64 x = of_int (rne (x / 2 powi e)) * 2 powi e"
proof -
  have k: "e + 52 + 1 = e + 53" "e + 52 - 52 = e" by simp_all
  have "- 1022 \<le> e + 52" using assms(1) by simp
  then show ?thesis
    using fl64_binade [of "e + 52" x] assms(2,3) unfolding k by blast
qed

lemma fl64_of_grid:
  assumes "- 1074 \<le> e" "0 \<le> n" "n \<le> 2 ^ 53" "- 1074 < e \<Longrightarrow> 2 ^ 52 \<le> n"
  shows "fl64 (of_int n * 2 powi e) = of_int n * 2 powi e"
proof -
  let ?P = "(2::real) powi e"
  have P: "0 < ?P" by simp
  have quot: "of_int n * ?P / ?P = of_int n" by simp
  consider "n = 0" | "n = 2 ^ 53" | "0 < n" "n < 2 ^ 53" "2 ^ 52 \<le> n"
    | "0 < n" "n < 2 ^ 52" "e = - 1074"
    using assms by (cases "- 1074 < e") force+
  then show ?thesis
  proof cases
    case 1
    then show ?thesis by (simp add: fl64_zero)
  next
    case 2
    have v: "of_int n * ?P = of_int (2 ^ 52) * 2 powi (e + 1)"
      unfolding 2 powi_53 powi_52 by (simp add: add.commute)
    have lo: "2 powi (e + 1 + 52) \<le> of_int (2 ^ 52) * (2::real) powi (e + 1)"
      unfolding powi_52 by simp
    have hi: "of_int (2 ^ 52) * (2::real) powi (e + 1) < 2 powi (e + 1 + 53)"
      unfolding powi_52 by (intro power_int_strict_increasing) simp_all
    have "fl64 (of_int (2 ^ 52) * 2 powi (e + 1))
          = of_int (rne (of_int (2 ^ 52) * 2 powi (e + 1) / 2 powi (e + 1))) * 2 powi (e + 1)"
      using assms(1) lo hi by (intro fl64_binade') simp_all
    also have "of_int (2 ^ 52) * (2::real) powi (e + 1) / 2 powi (e + 1) = of_int (2 ^ 52)"
      by simp
    finally show ?thesis unfolding v by (simp only: rne_of_int)
  next
    case 3
    have lo: "2 powi (e + 52) \<le> of_int n * ?P"
    proof -
      have "(of_int (2 ^ 52) :: real) \<le> of_int n" using 3(3) by (simp only: of_int_le_iff)
      then have "of_int (2 ^ 52) * ?P \<le> of_int n * ?P" by (intro mult_right_mono) simp_all
      then show ?thesis unfolding powi_52 .
    qed
    have hi: "of_int n * ?P < 2 powi (e + 53)"
    proof -
      have "(of_int n :: real) < of_int (2 ^ 53)" using 3(2) by (simp only: of_int_less_iff)
      then have "of_int n * ?P < of_int (2 ^ 53) * ?P" by (intro mult_strict_right_mono) simp_all
      then show ?thesis unfolding powi_53 .
    qed
    have "fl64 (of_int n * ?P) = of_int (rne (of_int n * ?P / ?P)) * ?P"
      using assms(1) lo hi by (rule fl64_binade')
    then show ?thesis unfolding quot by (simp only: rne_of_int)
  next
    case 4
    have pos: "0 < of_int n * ?P" using 4(1) by simp
    have hi: "of_int n * ?P < 2 powi (- 1022)"
    proof -
      have "(of_int n :: real) < of_int (2 ^ 52)" using 4(2) by (simp only: of_int_less_iff)
      then have "of_int n * ?P < of_int (2 ^ 52) * ?P" by (intro mult_strict_right_mono) simp_all
      then show ?thesis unfolding powi_52 by (simp add: 4(3))
    qed
    have "fl64 (of_int n * ?P)
          = of_int (rne (of_int n * ?P / 2 powi (- 1074))) * 2 powi (- 1074)"
      using pos hi by (rule fl64_subnormal)
    then have "fl64 (of_int n * ?P) = of_int (rne (of_int n * ?P / ?P)) * ?P"
      by (simp only: 4(3))
    then show ?thesis unfolding quot by (simp only: rne_of_int)
  qed
qed

lemma fl64_idem:
  assumes "0 \<le> x"
  shows "fl64 (fl64 x) = fl64 x"
proof (cases "x = 0")
  case True
  then show ?thesis by (simp add: fl64_zero)
next
  case False
  then have x: "0 < x" using assms by simp
  have e: "- 1074 \<le> spacingExp x" by (simp add: spacingExp_def)
  show ?thesis
    unfolding fl64_grid [OF x]
    using e rne_range [OF x] by (intro fl64_of_grid)
qed

section \<open>The rounded update\<close>

text \<open>
  The constants of the update as doubles, the stall at twelve spacings below 1, the
  error of one update against the exact value, and the direction of the move.
\<close>

lemma fl64_half_one:
  assumes "1 / 2 \<le> x" "x < 1"
  shows "fl64 x = of_int (rne (x * 2 ^ 53)) / 2 ^ 53"
  using fl64_binade [of "- 1" x] assms by (simp add: power_int_minus field_simps)

lemma fl64_one: "fl64 1 = 1"
  using fl64_binade [of 0 1] by (simp add: power_int_minus rne_def Let_def)

lemma dt64_val: "dt64 = 5764607523034235 / 2 ^ 57"
  unfolding dt64_def using fl64_binade [of "- 5" "0.04"]
  by (simp add: power_int_minus rne_def Let_def)

lemma fl64_dt64: "fl64 dt64 = dt64"
  unfolding dt64_val using fl64_binade [of "- 5" "5764607523034235 / 2 ^ 57"]
  by (simp add: power_int_minus rne_def Let_def)

lemma one_minus_dt64: "fl64 (1 - dt64) = a64"
  unfolding dt64_val a64_def
  using fl64_half_one [of "1 - 5764607523034235 / 2 ^ 57"]
  by (simp add: rne_def Let_def)

lemma fl64_a64: "fl64 a64 = a64"
  unfolding a64_def
  using fl64_half_one [of "8646911284551352 / 2 ^ 53"]
  by (simp add: rne_def Let_def)

lemma lerp64_dt64:
  "lerp64 r 0 dt64 = fl64 (fl64 (a64 * r))"
  "lerp64 r 1 dt64 = fl64 (fl64 (a64 * r) + dt64)"
  by (simp_all add: lerp64_def one_minus_dt64 fl64_zero fl64_dt64)

lemma stall_product: "fl64 (a64 * stallRatio) = 8646911284551340 / 2 ^ 53"
  unfolding a64_def stallRatio_def
  using fl64_half_one [of "8646911284551352 / 2 ^ 53 * (9007199254740980 / 2 ^ 53)"]
  by (simp add: rne_def Let_def)

lemma stall_lerp64: "lerp64 stallRatio 1 dt64 = stallRatio"
  unfolding lerp64_dt64 stall_product unfolding dt64_val stallRatio_def
  using fl64_half_one [of "8646911284551340 / 2 ^ 53 + 5764607523034235 / 2 ^ 57"]
  by (simp add: rne_def Let_def)

lemma stall_isDouble: "isDouble stallRatio"
  unfolding isDouble_def stallRatio_def
  using fl64_half_one [of "9007199254740980 / 2 ^ 53"]
  by (simp add: rne_def Let_def)

lemma a64_bounds: "0 < a64" "a64 < 1" "a64 + dt64 \<le> 1" "0 < dt64"
  by (simp_all add: a64_def dt64_val)

lemma product_bounds:
  assumes "0 \<le> r" "r \<le> 1"
  shows "0 \<le> a64 * r" and "a64 * r \<le> a64"
  using assms a64_bounds(1) by (simp_all add: mult_left_le)

lemma product_rounded:
  assumes "0 \<le> r" "r \<le> 1"
  shows "0 \<le> fl64 (a64 * r)" and "fl64 (a64 * r) \<le> a64"
proof -
  have nn: "0 \<le> a64 * r" using assms by (rule product_bounds(1))
  then show "0 \<le> fl64 (a64 * r)" by (rule fl64_nonneg)
  have "fl64 (a64 * r) \<le> fl64 a64"
    using nn product_bounds(2) [OF assms] by (intro fl64_mono)
  then show "fl64 (a64 * r) \<le> a64" by (simp only: fl64_a64)
qed

lemma inner_error:
  assumes "0 \<le> r" "r \<le> 1"
  shows "\<bar>fl64 (a64 * r) - a64 * r\<bar> \<le> 1 / 2 ^ 54"
proof -
  have "a64 * r < 2 powi 0" using product_bounds(2) [OF assms] a64_bounds(2) by simp
  then have "\<bar>fl64 (a64 * r) - a64 * r\<bar> \<le> 2 powi (0 - 54)"
    using product_bounds(1) [OF assms] by (intro fl64_error_below) simp_all
  then show ?thesis by (simp add: power_int_minus field_simps)
qed

lemma outer_error:
  assumes "0 \<le> s" "s < 2"
  shows "\<bar>fl64 s - s\<bar> \<le> 1 / 2 ^ 53"
proof -
  have "s < 2 powi 1" using assms(2) by simp
  then have "\<bar>fl64 s - s\<bar> \<le> 2 powi (1 - 54)"
    using assms(1) by (intro fl64_error_below) simp_all
  then show ?thesis by (simp add: power_int_minus field_simps)
qed

lemma abs_diff_bound:
  fixes u v b :: real
  shows "\<bar>u - v\<bar> \<le> b \<Longrightarrow> u - v \<le> b" and "\<bar>u - v\<bar> \<le> b \<Longrightarrow> v - u \<le> b"
  by linarith+

lemma abs_diff_boundI:
  fixes u v b :: real
  shows "u - v \<le> b \<Longrightarrow> v - u \<le> b \<Longrightarrow> \<bar>u - v\<bar> \<le> b"
  by linarith

lemma pow_numerals:
  "(1::real) / 2 ^ 54 = 1 / 18014398509481984"
  "(1::real) / 2 ^ 53 = 1 / 9007199254740992"
  "(1::real) / 2 ^ 52 = 1 / 4503599627370496"
  by simp_all

lemma lerp64_error:
  assumes "0 \<le> r" "r \<le> 1" "t = 0 \<or> t = 1"
  shows "\<bar>lerp64 r t dt64 - (r + (t - r) * 0.04)\<bar> \<le> 1 / 2 ^ 52"
proof -
  define m where "m = a64 * r"
  define p where "p = fl64 m"
  have m: "m = (8646911284551352 / 9007199254740992) * r"
    by (simp add: m_def a64_def)
  have c: "dt64 = 5764607523034235 / 144115188075855872"
    by (simp add: dt64_val)
  have a: "a64 = 8646911284551352 / 9007199254740992"
    by (simp add: a64_def)
  have "\<bar>p - m\<bar> \<le> 1 / 2 ^ 54"
    unfolding p_def m_def using assms(1,2) by (rule inner_error)
  then have p: "p - m \<le> 1 / 18014398509481984" "m - p \<le> 1 / 18014398509481984"
    unfolding pow_numerals by (rule abs_diff_bound)+
  have p0: "0 \<le> p" and pa: "p \<le> a64"
    unfolding p_def m_def using assms(1,2) by (rule product_rounded)+
  from assms(3) show ?thesis
  proof
    assume t: "t = 0"
    define x where "x = fl64 p"
    have "\<bar>x - p\<bar> \<le> 1 / 2 ^ 53"
      unfolding x_def using p0 pa a by (intro outer_error) linarith+
    then have s: "x - p \<le> 1 / 9007199254740992" "p - x \<le> 1 / 9007199254740992"
      unfolding pow_numerals by (rule abs_diff_bound)+
    have "x - (24 / 25) * r \<le> 1 / 4503599627370496"
      and "(24 / 25) * r - x \<le> 1 / 4503599627370496"
      using p s m assms(1,2) by linarith+
    then have "\<bar>x - (24 / 25) * r\<bar> \<le> 1 / 2 ^ 52"
      unfolding pow_numerals by (rule abs_diff_boundI)
    moreover have "lerp64 r t dt64 = x"
      by (simp add: t lerp64_dt64 x_def p_def m_def)
    moreover have "r + (0 - r) * 0.04 = (24 / 25) * r"
      by (simp add: field_simps)
    ultimately show ?thesis by (simp only: t)
  next
    assume t: "t = 1"
    define x where "x = fl64 (p + dt64)"
    have "\<bar>x - (p + dt64)\<bar> \<le> 1 / 2 ^ 53"
      unfolding x_def using p0 pa a c by (intro outer_error) linarith+
    then have s: "x - (p + dt64) \<le> 1 / 9007199254740992"
      "(p + dt64) - x \<le> 1 / 9007199254740992"
      unfolding pow_numerals by (rule abs_diff_bound)+
    have "x - ((24 / 25) * r + 1 / 25) \<le> 1 / 4503599627370496"
      and "((24 / 25) * r + 1 / 25) - x \<le> 1 / 4503599627370496"
      using p s m c assms(1,2) by linarith+
    then have "\<bar>x - ((24 / 25) * r + 1 / 25)\<bar> \<le> 1 / 2 ^ 52"
      unfolding pow_numerals by (rule abs_diff_boundI)
    moreover have "lerp64 r t dt64 = x"
      by (simp add: t lerp64_dt64 x_def p_def m_def)
    moreover have "r + (1 - r) * 0.04 = (24 / 25) * r + 1 / 25"
      by (simp add: field_simps)
    ultimately show ?thesis by (simp only: t)
  qed
qed

lemma lerp64_zero_between:
  assumes "isDouble r" "0 \<le> r" "r \<le> 1"
  shows "0 \<le> lerp64 r 0 dt64" and "lerp64 r 0 dt64 \<le> r"
proof -
  have fr: "fl64 r = r" using assms(1) by (simp add: isDouble_def)
  have nn: "0 \<le> a64 * r" using assms(2,3) by (rule product_bounds(1))
  then have p0: "0 \<le> fl64 (a64 * r)" by (rule fl64_nonneg)
  then show "0 \<le> lerp64 r 0 dt64" unfolding lerp64_dt64 by (rule fl64_nonneg)
  have "a64 * r \<le> r" using assms(2) by (simp add: a64_def)
  then have "fl64 (a64 * r) \<le> fl64 r" using nn by (intro fl64_mono)
  then have "fl64 (a64 * r) \<le> r" by (simp only: fr)
  then have "fl64 (fl64 (a64 * r)) \<le> fl64 r" using p0 by (intro fl64_mono)
  then show "lerp64 r 0 dt64 \<le> r" unfolding lerp64_dt64 by (simp only: fr)
qed

lemma lerp64_one_upper:
  assumes "0 \<le> r" "r \<le> 1"
  shows "lerp64 r 1 dt64 \<le> 1"
proof -
  note p = product_rounded [OF assms]
  have "fl64 (fl64 (a64 * r) + dt64) \<le> fl64 1"
    using p a64_bounds by (intro fl64_mono) linarith+
  then show ?thesis unfolding lerp64_dt64 by (simp only: fl64_one)
qed

lemma e04: "(0.04::real) = 1 / 25"
  by simp

lemma a64_dt64_less: "a64 + dt64 < 1"
  by (simp add: a64_def dt64_val)

lemma double_grid:
  assumes "isDouble r" "3 / 4 \<le> r" "r \<le> 1"
  shows "\<exists>m::int. r = of_int m / 9007199254740992"
proof (cases "r = 1")
  case True
  have "r = of_int 9007199254740992 / 9007199254740992" using True by simp
  then show ?thesis by blast
next
  case False
  then have "r < 1" using assms(3) by simp
  then have "fl64 r = of_int (rne (r * 2 ^ 53)) / 2 ^ 53"
    using assms(2) by (intro fl64_half_one) simp_all
  then have "r = of_int (rne (r * 2 ^ 53)) / 9007199254740992"
    using assms(1) by (simp add: isDouble_def)
  then show ?thesis by blast
qed

lemma lerp64_one_lower_near:
  assumes "isDouble r" "3 / 4 \<le> r" "r \<le> 1"
  shows "r \<le> lerp64 r 1 dt64"
proof -
  obtain m :: int where m: "r = of_int m / 9007199254740992"
    using double_grid [OF assms] by blast
  then have m': "of_int m = r * 9007199254740992" by simp
  define y where "y = a64 * r"
  define p where "p = fl64 y"
  have y: "y = (8646911284551352 / 9007199254740992) * r"
    by (simp add: y_def a64_def)
  have c: "dt64 = 5764607523034235 / 144115188075855872"
    by (simp add: dt64_val)
  have a: "a64 = 8646911284551352 / 9007199254740992"
    by (simp add: a64_def)
  have r0: "0 \<le> r" using assms(2) by simp
  have yb: "1 / 2 \<le> y" "y < 1" using y assms(2,3) by linarith+
  have pf: "p = of_int (rne (y * 2 ^ 53)) / 2 ^ 53"
    unfolding p_def using yb by (rule fl64_half_one)
  have "of_int (m - 360287970189640) \<le> y * 2 ^ 53"
    using m' y assms(3) by simp
  then have "m - 360287970189640 \<le> rne (y * 2 ^ 53)"
    using rne_mono [of "of_int (m - 360287970189640)" "y * 2 ^ 53"]
    by (simp only: rne_of_int)
  then have "(of_int (m - 360287970189640) :: real) \<le> of_int (rne (y * 2 ^ 53))"
    by (simp only: of_int_le_iff)
  then have "(of_int (m - 360287970189640) :: real) / 2 ^ 53 \<le> p"
    unfolding pf by (simp add: divide_right_mono)
  then have pl: "r - 360287970189640 / 9007199254740992 \<le> p"
    using m' by (simp add: field_simps)
  have pu: "p \<le> a64"
    unfolding p_def y_def using r0 assms(3) by (rule product_rounded(2))
  define s where "s = p + dt64"
  have sb: "1 / 2 \<le> s" "s < 1"
    using pl pu a c assms(2) a64_dt64_less by (simp_all add: s_def)
  have sf: "fl64 s = of_int (rne (s * 2 ^ 53)) / 2 ^ 53"
    using sb by (rule fl64_half_one)
  have "r * 9007199254740992 - 1 / 2 < s * 9007199254740992"
    using pl c by (simp add: s_def)
  then have "of_int m - 1 / 2 < s * 2 ^ 53"
    using m' by simp
  then have "m \<le> rne (s * 2 ^ 53)" by (rule rne_ge)
  then have "(of_int m :: real) \<le> of_int (rne (s * 2 ^ 53))"
    by (simp only: of_int_le_iff)
  then have "(of_int m :: real) / 2 ^ 53 \<le> fl64 s"
    unfolding sf by (simp add: divide_right_mono)
  then have "r \<le> fl64 s" using m by simp
  then show ?thesis
    by (simp add: lerp64_dt64 s_def p_def y_def)
qed

lemma lerp64_one_lower:
  assumes "isDouble r" "0 \<le> r" "r \<le> 1"
  shows "r \<le> lerp64 r 1 dt64"
proof (cases "3 / 4 \<le> r")
  case True
  then show ?thesis using assms(1,3) by (intro lerp64_one_lower_near)
next
  case False
  have "\<bar>lerp64 r 1 dt64 - (r + (1 - r) * 0.04)\<bar> \<le> 1 / 2 ^ 52"
    using assms(2,3) by (intro lerp64_error) simp_all
  then have "(r + (1 - r) * (1 / 25)) - lerp64 r 1 dt64 \<le> 1 / 4503599627370496"
    unfolding pow_numerals e04 by (rule abs_diff_bound)
  then show ?thesis using False by argo
qed

lemma lerp64_one_strict_near:
  assumes "isDouble r" "3 / 4 \<le> r" "12 / 2 ^ 53 < 1 - r"
  shows "r < lerp64 r 1 dt64"
proof -
  have r1: "r \<le> 1" using assms(3) by simp
  obtain m :: int where m: "r = of_int m / 9007199254740992"
    using double_grid [OF assms(1,2) r1] by blast
  then have m': "of_int m = r * 9007199254740992" by simp
  define y where "y = a64 * r"
  have y: "y = (8646911284551352 / 9007199254740992) * r"
    by (simp add: y_def a64_def)
  have c: "dt64 = 5764607523034235 / 144115188075855872"
    by (simp add: dt64_val)
  have a: "a64 = 8646911284551352 / 9007199254740992"
    by (simp add: a64_def)
  have gap: "12 / 9007199254740992 < 1 - r" using assms(3) by simp
  have "(of_int m :: real) < of_int (9007199254740992 - 12)"
    using m' gap by simp
  then have "m < 9007199254740992 - 12" by (simp only: of_int_less_iff)
  then have "m + 13 \<le> 9007199254740992" by simp
  then have "(of_int (m + 13) :: real) \<le> of_int 9007199254740992" by (simp only: of_int_le_iff)
  then have gap13: "13 / 9007199254740992 \<le> 1 - r" using m' by simp
  have r0: "0 \<le> r" using assms(2) by simp
  have yb: "1 / 2 \<le> y" "y < 1" using y assms(2) r1 by argo+
  define p where "p = fl64 y"
  have pf: "p = of_int (rne (y * 2 ^ 53)) / 2 ^ 53"
    unfolding p_def using yb by (rule fl64_half_one)
  have "r * 9007199254740992 - 360287970189640 + 1 - 1 / 2 < y * 9007199254740992"
    using y gap13 by argo
  then have "of_int (m - 360287970189640 + 1) - 1 / 2 < y * 2 ^ 53"
    using m' by simp
  then have "m - 360287970189640 + 1 \<le> rne (y * 2 ^ 53)" by (rule rne_ge)
  then have "(of_int (m - 360287970189640 + 1) :: real) \<le> of_int (rne (y * 2 ^ 53))"
    by (simp only: of_int_le_iff)
  then have "(of_int (m - 360287970189640 + 1) :: real) / 2 ^ 53 \<le> p"
    unfolding pf by (simp add: divide_right_mono)
  then have pl: "r - 360287970189639 / 9007199254740992 \<le> p"
    using m' by (simp add: field_simps)
  have pu: "p \<le> a64"
    unfolding p_def y_def using r0 r1 by (rule product_rounded(2))
  define s where "s = p + dt64"
  have sb: "1 / 2 \<le> s" "s < 1"
    using pl pu a c assms(2) a64_dt64_less unfolding s_def by argo+
  have sf: "fl64 s = of_int (rne (s * 2 ^ 53)) / 2 ^ 53"
    using sb by (rule fl64_half_one)
  have "r * 9007199254740992 + 1 - 1 / 2 < s * 9007199254740992"
    using pl c unfolding s_def by argo
  then have "of_int (m + 1) - 1 / 2 < s * 2 ^ 53"
    using m' by simp
  then have "m + 1 \<le> rne (s * 2 ^ 53)" by (rule rne_ge)
  then have "(of_int (m + 1) :: real) \<le> of_int (rne (s * 2 ^ 53))"
    by (simp only: of_int_le_iff)
  then have "(of_int (m + 1) :: real) / 2 ^ 53 \<le> fl64 s"
    unfolding sf by (simp add: divide_right_mono)
  then have "r + 1 / 9007199254740992 \<le> fl64 s" using m' by (simp add: field_simps)
  then have "r < fl64 s" by argo
  then show ?thesis
    by (simp add: lerp64_dt64 s_def p_def y_def)
qed

lemma lerp64_one_strict:
  assumes "isDouble r" "0 \<le> r" "12 / 2 ^ 53 < 1 - r"
  shows "r < lerp64 r 1 dt64"
proof (cases "3 / 4 \<le> r")
  case True
  then show ?thesis using assms(1,3) by (intro lerp64_one_strict_near)
next
  case False
  have r1: "r \<le> 1" using assms(3) by simp
  have "\<bar>lerp64 r 1 dt64 - (r + (1 - r) * 0.04)\<bar> \<le> 1 / 2 ^ 52"
    using assms(2) r1 by (intro lerp64_error) simp_all
  then have "(r + (1 - r) * (1 / 25)) - lerp64 r 1 dt64 \<le> 1 / 4503599627370496"
    unfolding pow_numerals e04 by (rule abs_diff_bound)
  then show ?thesis using False by argo
qed

lemma spacing_le:
  assumes "2 powi (- 1021) \<le> r"
  shows "2 powi spacingExp r \<le> r / 2 ^ 52"
proof -
  have r: "0 < r" using assms two_powi_pos [of "- 1021"] by linarith
  have "- 1021 \<le> \<lfloor>log 2 r\<rfloor>"
  proof (rule ccontr)
    assume "\<not> - 1021 \<le> \<lfloor>log 2 r\<rfloor>"
    then have le: "\<lfloor>log 2 r\<rfloor> + 1 \<le> - 1021" by linarith
    have "(2::real) powi (\<lfloor>log 2 r\<rfloor> + 1) \<le> 2 powi (- 1021)"
      by (rule power_int_increasing [OF le]) simp
    then show False using log2_bounds(2) [OF r] assms by linarith
  qed
  then have fl: "- 1021 \<le> \<lfloor>log 2 r\<rfloor>" .
  have ab: "\<bar>r\<bar> = r" using r by simp
  have "spacingExp r = max \<lfloor>log 2 r\<rfloor> (- 1022) - 52"
    by (simp only: spacingExp_def ab)
  then have "- 1074 < spacingExp r" using fl by linarith
  then have "2 powi (spacingExp r + 52) \<le> r" using r by (intro spacingExp_lower)
  then have "2 powi spacingExp r * 2 ^ 52 \<le> r" by (simp add: powi_split)
  then show ?thesis by (simp add: field_simps)
qed

lemma lerp64_zero_strict:
  assumes "2 powi (- 1021) \<le> r" "r \<le> 1"
  shows "lerp64 r 0 dt64 < r"
proof -
  have r: "0 < r" using assms(1) two_powi_pos [of "- 1021"] by linarith
  define x where "x = a64 * r"
  have x: "x = (8646911284551352 / 9007199254740992) * r" by (simp add: x_def a64_def)
  have x0: "0 < x" "x \<le> r" using x r by argo+
  have "\<bar>fl64 x - x\<bar> \<le> 2 powi spacingExp x / 2" by (rule fl64_error)
  also have "\<dots> \<le> 2 powi spacingExp r / 2"
    using spacingExp_mono [OF x0]
    by (intro divide_right_mono power_int_increasing) simp_all
  also have "\<dots> \<le> (r / 2 ^ 52) / 2"
    using spacing_le [OF assms(1)] by (intro divide_right_mono) simp_all
  finally have "\<bar>fl64 x - x\<bar> \<le> r / 9007199254740992" by simp
  then have "fl64 x - x \<le> r / 9007199254740992" by (rule abs_diff_bound)
  then have "fl64 x < r" using x r by argo
  moreover have "fl64 (fl64 x) = fl64 x" using x0(1) by (intro fl64_idem) simp
  ultimately show ?thesis by (simp add: lerp64_dt64 x_def)
qed

section \<open>Properties of the smoothing in double-precision arithmetic\<close>

lemma lerp64_unitDouble:
  assumes "unitDouble r" "t = 0 \<or> t = 1"
  shows "unitDouble (lerp64 r t dt64)"
proof -
  have r: "isDouble r" "0 \<le> r" "r \<le> 1" using assms(1) by (simp_all add: unitDouble_def)
  have p0: "0 \<le> fl64 (a64 * r)" using r(2,3) by (rule product_rounded(1))
  have d: "isDouble (lerp64 r t dt64)"
    using assms(2) p0 a64_bounds(4)
    by (auto simp: isDouble_def lerp64_dt64 intro!: fl64_idem)
  from assms(2) show ?thesis
  proof
    assume t: "t = 0"
    show ?thesis
      using d lerp64_zero_between [OF r] r(3) unfolding t unitDouble_def by simp
  next
    assume t: "t = 1"
    show ?thesis
      using d lerp64_one_lower [OF r] lerp64_one_upper [OF r(2,3)] r(2)
      unfolding t unitDouble_def by simp
  qed
qed

lemma lerp64_approaches:
  assumes "unitDouble r" "t = 0 \<or> t = 1"
  shows "approaches r t (lerp64 r t dt64)"
proof -
  have r: "isDouble r" "0 \<le> r" "r \<le> 1" using assms(1) by (simp_all add: unitDouble_def)
  have "\<bar>lerp64 r t dt64 - (r + (t - r) * 0.04)\<bar> \<le> 1 / 2 ^ 52"
    using r(2,3) assms(2) by (rule lerp64_error)
  moreover have "(t - lerp64 r t dt64) - 0.96 * (t - r) = - (lerp64 r t dt64 - (r + (t - r) * 0.04))"
    by (simp add: field_simps)
  ultimately have e: "\<bar>(t - lerp64 r t dt64) - 0.96 * (t - r)\<bar> \<le> 1 / 2 ^ 52"
    by (simp only: abs_minus)
  have one: "t = 1 \<longrightarrow> r \<le> lerp64 r t dt64 \<and> lerp64 r t dt64 \<le> 1
               \<and> (12 / 2 ^ 53 < 1 - r \<longrightarrow> r < lerp64 r t dt64)"
    using lerp64_one_lower [OF r] lerp64_one_upper [OF r(2,3)] lerp64_one_strict [OF r(1,2)]
    by blast
  have zero: "t = 0 \<longrightarrow> 0 \<le> lerp64 r t dt64 \<and> lerp64 r t dt64 \<le> r
               \<and> (2 powi (- 1021) \<le> r \<longrightarrow> lerp64 r t dt64 < r)"
    using lerp64_zero_between [OF r] lerp64_zero_strict [of r] r(3) by blast
  show ?thesis
    unfolding approaches_def
    using one zero e lerp64_unitDouble [OF assms] by blast
qed

lemma targets_binary:
  "targetForm gs st = 0 \<or> targetForm gs st = 1"
  "targetSpread gs st = 0 \<or> targetSpread gs st = 1"
  "targetRain b = 0 \<or> targetRain b = 1"
  "targetWave b = 0 \<or> targetWave b = 1"
  by (simp_all add: targetForm_def targetSpread_def formSpreadTargets_def targetRain_def
      targetWave_def)

text \<open>
  C4 (as the code has it). For ratios that are doubles in \<open>[0, 1]\<close> and their targets
  in \<open>{0, 1}\<close>, one frame update in double arithmetic moves each ratio toward its target
  or leaves it where it is, never past the target and never away from it. The move is
  strict toward 1 from every ratio more than \<open>12 / 2 ^ 53\<close> below 1, and strict toward 0
  from every ratio of at least \<open>2\<close> to the \<open>-1021\<close>. The new distance is 0.96 times the old
  one up to a rounding error of at most \<open>2\<close> to the \<open>-52\<close>.
\<close>

theorem smoothing_in_doubles:
  assumes "unitDouble (uFormRatio u)" "unitDouble (uSpreadRatio u)"
    "unitDouble (uRainRatio u)" "unitDouble (uWaveRatio u)"
  shows "approaches (uFormRatio u) (targetForm (gestureState props) (isStormy props))
           (uFormRatio (updateRatios64 props u))
       \<and> approaches (uSpreadRatio u) (targetSpread (gestureState props) (isStormy props))
           (uSpreadRatio (updateRatios64 props u))
       \<and> approaches (uRainRatio u) (targetRain (isRaining props))
           (uRainRatio (updateRatios64 props u))
       \<and> approaches (uWaveRatio u) (targetWave (isStormy props))
           (uWaveRatio (updateRatios64 props u))"
  using assms by (simp add: updateRatios64_def lerp64_approaches targets_binary)

lemma unitDouble_zero: "unitDouble 0"
  by (simp add: unitDouble_def isDouble_def fl64_zero)

lemma lerp64_from_zero: "lerp64 0 1 dt64 = dt64" "lerp64 0 0 dt64 = 0"
  by (simp_all add: lerp64_dt64 fl64_zero fl64_dt64)

text \<open>
  From the initial uniforms in the state TREES the form ratio becomes the double nearest
  0.04, and the ratios with target 0 stay at 0.
\<close>

theorem smoothing_in_doubles_witness:
  "uFormRatio (updateRatios64 (initialApp\<lparr>gestureState := TREES\<rparr>) initialUniforms) = dt64
   \<and> dt64 = 5764607523034235 / 2 ^ 57
   \<and> approaches 0 1 dt64 \<and> approaches 0 0 0"
  using smoothing_in_doubles [of initialUniforms "initialApp\<lparr>gestureState := TREES\<rparr>"]
    dt64_val
  by (simp add: unitDouble_zero initialUniforms_def initialApp_def updateRatios64_def
      targetForm_def targetSpread_def formSpreadTargets_def targetRain_def targetWave_def
      lerp64_from_zero)

section \<open>Replaying a run that holds TREES\<close>

text \<open>
  On the doubles of the binade below 1 the update is a function on integers, which
  the kernel evaluates; the first 19 frames from 0 pass through the lower binades and
  are evaluated on the reals.
\<close>

lemma rne_div:
  assumes "0 < b"
  shows "rne (of_int a / of_int b) = rneDiv a b"
proof -
  have f: "\<lfloor>(of_int a :: real) / of_int b\<rfloor> = a div b" by (rule floor_divide_of_int_eq)
  have e: "(of_int a :: real) = of_int (a div b) * of_int b + of_int (a mod b)"
    by (simp flip: of_int_mult of_int_add)
  have "(of_int a :: real) / of_int b
        = of_int (a div b) * of_int b / of_int b + of_int (a mod b) / of_int b"
    by (subst e) (rule add_divide_distrib)
  then have "(of_int a :: real) / of_int b = of_int (a div b) + of_int (a mod b) / of_int b"
    using assms by simp
  then have d: "(of_int a :: real) / of_int b - of_int (a div b) = of_int (a mod b) / of_int b"
    by simp
  have lt: "(of_int (a mod b) :: real) / of_int b < 1 / 2 \<longleftrightarrow> 2 * (a mod b) < b"
  proof -
    have "(of_int (a mod b) :: real) / of_int b < 1 / 2 \<longleftrightarrow> (of_int (2 * (a mod b)) :: real) < of_int b"
      using assms by (simp add: field_simps)
    then show ?thesis by (simp only: of_int_less_iff)
  qed
  have gt: "1 / 2 < (of_int (a mod b) :: real) / of_int b \<longleftrightarrow> b < 2 * (a mod b)"
  proof -
    have "1 / 2 < (of_int (a mod b) :: real) / of_int b \<longleftrightarrow> (of_int b :: real) < of_int (2 * (a mod b))"
      using assms by (simp add: field_simps)
    then show ?thesis by (simp only: of_int_less_iff)
  qed
  show ?thesis
    unfolding rne_def rneDiv_def Let_def f d lt gt by simp
qed

lemma step_top:
  assumes "4860111761999004 \<le> m" "m \<le> 9007199254740992"
  shows "lerp64 (of_int m / 2 ^ 53) 1 dt64 = of_int (stepInt m) / 2 ^ 53"
proof -
  define r :: real where "r = of_int m / 2 ^ 53"
  have m: "(of_int m :: real) = r * 9007199254740992" by (simp add: r_def)
  have "(of_int (4860111761999004::int) :: real) \<le> of_int m" "(of_int m :: real) \<le> of_int (9007199254740992::int)"
    using assms by (simp_all only: of_int_le_iff)
  then have rb: "4860111761999004 / 9007199254740992 \<le> r" "r \<le> 1"
    by (simp_all add: r_def)
  define y where "y = a64 * r"
  have y: "y = (8646911284551352 / 9007199254740992) * r" by (simp add: y_def a64_def)
  have yb: "1 / 2 \<le> y" "y < 1" using y rb by argo+
  have y2: "y * 2 ^ 53 = of_int (8646911284551352 * m) / of_int 9007199254740992"
    using y m by simp
  define p where "p = rneDiv (8646911284551352 * m) 9007199254740992"
  have pf: "fl64 y = of_int p / 2 ^ 53"
    unfolding fl64_half_one [OF yb] y2 p_def by (simp only: rne_div)
  have r0: "0 \<le> r" using rb(1) by argo
  have pb: "0 \<le> fl64 y" "fl64 y \<le> a64"
    unfolding y_def using r0 rb(2) by (rule product_rounded)+
  have pl: "y - fl64 y \<le> 1 / 18014398509481984"
  proof -
    have "\<bar>fl64 y - y\<bar> \<le> 1 / 2 ^ 54"
      unfolding y_def using r0 rb(2) by (rule inner_error)
    then show ?thesis
      unfolding pow_numerals by (rule abs_diff_bound)
  qed
  define s where "s = fl64 y + dt64"
  have c: "dt64 = 5764607523034235 / 144115188075855872" by (simp add: dt64_val)
  have a: "a64 = 8646911284551352 / 9007199254740992" by (simp add: a64_def)
  have sb: "1 / 2 \<le> s" "s < 1"
    using pl pb yb a c unfolding s_def by argo+
  have s2: "s * 2 ^ 53 = of_int (p * 16 + 5764607523034235) / of_int 16"
    unfolding s_def pf c by simp
  have "fl64 s = of_int (rneDiv (p * 16 + 5764607523034235) 16) / 2 ^ 53"
    unfolding fl64_half_one [OF sb] s2 by (simp only: rne_div)
  then show ?thesis
    by (simp add: lerp64_dt64 s_def y_def r_def stepInt_def p_def)
qed

lemma iterInt_sound:
  "iterInt n m = Some m' \<Longrightarrow> iter64 n (of_int m / 2 ^ 53) = of_int m' / 2 ^ 53"
proof (induction n arbitrary: m)
  case 0
  then show ?case by simp
next
  case (Suc n)
  from Suc.prems have range: "4860111761999004 \<le> m" "m \<le> 9007199254740992"
    and rest: "iterInt n (stepInt m) = Some m'"
    by (simp_all split: if_splits)
  have "iter64 (Suc n) (of_int m / 2 ^ 53) = iter64 n (lerp64 (of_int m / 2 ^ 53) 1 dt64)"
    by (simp only: iter64.simps)
  also have "\<dots> = iter64 n (of_int (stepInt m) / 2 ^ 53)"
    by (simp only: step_top [OF range])
  also have "\<dots> = of_int m' / 2 ^ 53"
    using rest by (rule Suc.IH)
  finally show ?case .
qed

lemma replay_top: "iterInt 817 4860111761999004 = Some 9007199254740980"
  by code_simp

lemma iter64_numeral: "iter64 (numeral k) r = iter64 (pred_numeral k) (lerp64 r 1 dt64)"
  by (simp add: numeral_eq_Suc)

lemma fl64_low_binades:
  "1 / 2 \<le> x \<Longrightarrow> x < 1 \<Longrightarrow> fl64 x = of_int (rne (x * 2 ^ 53)) / 2 ^ 53"
  "1 / 4 \<le> x \<Longrightarrow> x < 1 / 2 \<Longrightarrow> fl64 x = of_int (rne (x * 2 ^ 54)) / 2 ^ 54"
  "1 / 8 \<le> x \<Longrightarrow> x < 1 / 4 \<Longrightarrow> fl64 x = of_int (rne (x * 2 ^ 55)) / 2 ^ 55"
  "1 / 16 \<le> x \<Longrightarrow> x < 1 / 8 \<Longrightarrow> fl64 x = of_int (rne (x * 2 ^ 56)) / 2 ^ 56"
  "1 / 32 \<le> x \<Longrightarrow> x < 1 / 16 \<Longrightarrow> fl64 x = of_int (rne (x * 2 ^ 57)) / 2 ^ 57"
  using fl64_binade [of "- 1" x] fl64_binade [of "- 2" x] fl64_binade [of "- 3" x]
    fl64_binade [of "- 4" x] fl64_binade [of "- 5" x]
  by (simp_all add: power_int_minus field_simps)

lemma step64:
  "lerp64 r 1 dt64
     = fl64 (fl64 (8646911284551352 / 2 ^ 53 * r) + 5764607523034235 / 2 ^ 57)"
  by (simp only: lerp64_dt64 a64_def) (simp only: dt64_val)

lemma replay_start: "iter64 19 0 = of_int 4860111761999004 / 2 ^ 53"
  by (simp add: iter64_numeral step64 fl64_zero fl64_low_binades rne_def Let_def)

lemma iter64_add: "iter64 (a + b) r = iter64 b (iter64 a r)"
  by (induction a arbitrary: r) simp_all

lemma replay_836: "iter64 836 0 = stallRatio"
proof -
  have "iter64 (19 + 817) 0 = iter64 817 (iter64 19 0)" by (rule iter64_add)
  also have "\<dots> = iter64 817 (of_int 4860111761999004 / 2 ^ 53)"
    by (simp only: replay_start)
  also have "\<dots> = of_int 9007199254740980 / 2 ^ 53"
    using replay_top by (rule iterInt_sound)
  finally show ?thesis by (simp add: stallRatio_def)
qed

lemma runRatios64_trees:
  "uFormRatio (runRatios64 (replicate n holdingTrees) u) = iter64 n (uFormRatio u)"
proof (induction n arbitrary: u)
  case 0
  then show ?case by simp
next
  case (Suc n)
  have "uFormRatio (updateRatios64 holdingTrees u) = lerp64 (uFormRatio u) 1 dt64"
    by (simp add: updateRatios64_def holdingTrees_def initialApp_def targetForm_def
        formSpreadTargets_def)
  then show ?case using Suc.IH [of "updateRatios64 holdingTrees u"] by simp
qed

text \<open>
  The claim as written, that the distance to the target strictly decreases on every
  tick while the ratio differs from the target, fails in double arithmetic: holding
  TREES from the initial uniforms, the form ratio after 836 frames is
  \<^verbatim>\<open>0.9999999999999987\<close>, not yet 1, and frame 837 leaves it there.
\<close>

theorem smoothing_stall_counterexample:
  "uFormRatio (runRatios64 (replicate 836 holdingTrees) initialUniforms) = stallRatio
   \<and> uFormRatio (runRatios64 (replicate 837 holdingTrees) initialUniforms) = stallRatio
   \<and> stallRatio \<noteq> targetForm (gestureState holdingTrees) (isStormy holdingTrees)
   \<and> 0 \<le> stallRatio \<and> stallRatio \<le> 1 \<and> 1 - stallRatio = 12 / 2 ^ 53
   \<and> \<not> \<bar>1 - uFormRatio (runRatios64 (replicate 837 holdingTrees) initialUniforms)\<bar>
         < \<bar>1 - uFormRatio (runRatios64 (replicate 836 holdingTrees) initialUniforms)\<bar>"
proof -
  have a: "iter64 837 0 = stallRatio"
  proof -
    have "iter64 (836 + 1) 0 = iter64 1 (iter64 836 0)" by (rule iter64_add)
    then show ?thesis by (simp add: replay_836 stall_lerp64)
  qed
  have u0: "uFormRatio initialUniforms = 0" by (simp add: initialUniforms_def)
  have t: "targetForm (gestureState holdingTrees) (isStormy holdingTrees) = 1"
    by (simp add: holdingTrees_def initialApp_def targetForm_def formSpreadTargets_def)
  show ?thesis
    unfolding runRatios64_trees u0 replay_836 a t by (simp add: stallRatio_def)
qed

lemma runRatios64_unitDouble:
  assumes "unitDouble (uFormRatio u)" "unitDouble (uSpreadRatio u)"
    "unitDouble (uRainRatio u)" "unitDouble (uWaveRatio u)"
  shows "unitDouble (uFormRatio (runRatios64 frames u))
       \<and> unitDouble (uSpreadRatio (runRatios64 frames u))
       \<and> unitDouble (uRainRatio (runRatios64 frames u))
       \<and> unitDouble (uWaveRatio (runRatios64 frames u))"
  using assms
proof (induction frames arbitrary: u)
  case Nil
  then show ?case by simp
next
  case (Cons props rest)
  show ?case
    unfolding runRatios64.simps
    by (rule Cons.IH)
      (simp_all add: updateRatios64_def lerp64_unitDouble targets_binary Cons.prems)
qed

section \<open>Properties of the camera rig\<close>

lemma handsCount_cases:
  "handsCount h = (if active (left h) then 1 else 0) + (if active (right h) then 1 else 0)"
  by (simp add: handsCount_def handsInfluence_def)

lemma avgX_cases:
  "avgX h =
     (if active (left h) \<and> active (right h) then (hand_x (left h) + hand_x (right h)) / 2
      else if active (left h) then hand_x (left h)
      else if active (right h) then hand_x (right h)
      else 0)"
  by (simp add: avgX_def handsCount_def handsInfluence_def)

lemma azimuth_of_targets:
  "handsCount h > 0 \<Longrightarrow>
     map_option targetAzimuth (cameraTargets h gs) = Some (avgX h / 10)"
  by (simp add: cameraTargets_def)

text \<open>
  C7. With at least one active hand the target azimuth is the average x of the active
  hands divided by 10 (that is \<open>avgX / 15 * 1.5\<close>), whatever the y coordinates and the
  gesture state are; the average is over the active hands only. Two active hands at
  \<open>- x\<close> and \<open>x\<close>, for instance -10 and 10, give the azimuth 0. With no active hand
  there are no targets and the camera position is left as it is.
\<close>

theorem camera_azimuth:
  "(handsCount h > 0 \<longrightarrow>
      map_option targetAzimuth (cameraTargets h gs) = Some (avgX h / 10))
   \<and> avgX h =
       (if active (left h) \<and> active (right h) then (hand_x (left h) + hand_x (right h)) / 2
        else if active (left h) then hand_x (left h)
        else if active (right h) then hand_x (right h)
        else 0)
   \<and> handsCount h = (if active (left h) then 1 else 0) + (if active (right h) then 1 else 0)
   \<and> map_option targetAzimuth (cameraTargets (twoHandsAt (- x) yl x yr) gs) = Some 0
   \<and> (\<not> active (left h) \<and> \<not> active (right h) \<longrightarrow>
        cameraTargets h gs = None \<and> CameraRig h gs delta cam = cam)"
proof -
  have two: "map_option targetAzimuth (cameraTargets (twoHandsAt (- x) yl x yr) gs) = Some 0"
    by (simp add: cameraTargets_def handsCount_cases avgX_cases twoHandsAt_def)
  have none: "\<not> active (left h) \<and> \<not> active (right h) \<longrightarrow>
        cameraTargets h gs = None \<and> CameraRig h gs delta cam = cam"
    by (simp add: CameraRig_def cameraTargets_def handsCount_cases)
  show ?thesis
    using azimuth_of_targets [of h gs] avgX_cases [of h] handsCount_cases [of h] two none
    by blast
qed

text \<open>
  Hands at -10 and 10 give azimuth 0; a single left hand at 15 gives 1.5; with no hands
  the camera at \<open>(0, 5, 25)\<close> stays there.
\<close>

theorem camera_azimuth_witness:
  "map_option targetAzimuth (cameraTargets (twoHandsAt (- 10) 3 10 (- 4)) TREES) = Some 0
   \<and> map_option targetAzimuth
       (cameraTargets \<lparr>left = \<lparr>hand_x = 15, hand_y = 2, active = True\<rparr>, right = inactiveHand\<rparr> SPREAD)
     = Some 1.5
   \<and> CameraRig noHands SPREAD 0.016 \<lparr>vx = 0, vy = 5, vz = 25\<rparr> = \<lparr>vx = 0, vy = 5, vz = 25\<rparr>"
  using camera_azimuth [of "twoHandsAt (- 10) 3 10 (- 4)" TREES 10 3 "- 4" "0.016" "\<lparr>vx = 0, vy = 5, vz = 25\<rparr>"]
    camera_azimuth [of "\<lparr>left = \<lparr>hand_x = 15, hand_y = 2, active = True\<rparr>, right = inactiveHand\<rparr>"
       SPREAD 10 3 "- 4" "0.016" "\<lparr>vx = 0, vy = 5, vz = 25\<rparr>"]
    camera_azimuth [of noHands SPREAD 10 3 "- 4" "0.016" "\<lparr>vx = 0, vy = 5, vz = 25\<rparr>"]
  by (simp add: noHands_def inactiveHand_def twoHandsAt_def handsCount_cases avgX_cases
      cameraTargets_def CameraRig_def)

section \<open>Properties of the rain layer\<close>

lemma morphedTarget_indep:
  "morphedTarget (u\<lparr>uWaveRatio := w, uLeftHandPos := lp, uLeftHandActive := la,
                    uRightHandPos := rp, uRightHandActive := ra\<rparr>) (a\<lparr>a_position := p\<rparr>)
   = morphedTarget u a"
  by (simp add: morphedTarget_def spreadTarget_def swayTarget_def rootTarget_def Let_def)

lemma rainPosition_indep:
  "rainPosition (u\<lparr>uWaveRatio := w, uLeftHandPos := lp, uLeftHandActive := la,
                    uRightHandPos := rp, uRightHandActive := ra\<rparr>) (a\<lparr>a_position := p\<rparr>) t
   = rainPosition u a t"
  by (simp add: rainPosition_def Let_def)

lemma isRain_pos:
  "vx (aRandom a) \<ge> 0.95 \<Longrightarrow> uRainRatio u > 0 \<Longrightarrow> isRain u a > 0"
  by (simp add: isRain_def glsl_step_def)

text \<open>
  C5 (as the code has it). For a particle whose first jitter component is at least
  0.95, whenever the rain ratio is positive: the position before the hand interaction
  is the rain position, with the height \<open>20 - mod (uTime * fallSpeed) 40\<close> and the
  horizontal position jittered around the column of the target as moved by the sway
  and the root morph; it does not depend on the chaos position, the wave ratio or the
  hands. The final position is that position plus the hand-interaction offset.
\<close>

theorem rain_override:
  assumes "vx (aRandom a) \<ge> 0.95" "uRainRatio u > 0"
  shows "layeredPosition u a = rainPosition u a (morphedTarget u a)
       \<and> vertexPosition u a
           = vadd (rainPosition u a (morphedTarget u a))
                  (interactOffset u (rainPosition u a (morphedTarget u a)))
       \<and> layeredPosition
            (u\<lparr>uWaveRatio := w, uLeftHandPos := lp, uLeftHandActive := la,
               uRightHandPos := rp, uRightHandActive := ra\<rparr>) (a\<lparr>a_position := p\<rparr>)
           = layeredPosition u a
       \<and> vy (layeredPosition u a)
           = 20 - glsl_mod (uTime u * (15 + vy (aRandom a) * 10)) 40
       \<and> vx (layeredPosition u a) = vx (morphedTarget u a) + (vy (aRandom a) - 0.5) * 30
       \<and> vz (layeredPosition u a) = vz (morphedTarget u a) + (vz (aRandom a) - 0.5) * 30"
proof -
  have r: "isRain u a > 0" using assms by (rule isRain_pos)
  have l: "layeredPosition u a = rainPosition u a (morphedTarget u a)"
    using r by (simp add: layeredPosition_def rainOverride_def Let_def)
  have r': "isRain (u\<lparr>uWaveRatio := w, uLeftHandPos := lp, uLeftHandActive := la,
               uRightHandPos := rp, uRightHandActive := ra\<rparr>) (a\<lparr>a_position := p\<rparr>) > 0"
    using assms by (simp add: isRain_def glsl_step_def)
  have l': "layeredPosition
            (u\<lparr>uWaveRatio := w, uLeftHandPos := lp, uLeftHandActive := la,
               uRightHandPos := rp, uRightHandActive := ra\<rparr>) (a\<lparr>a_position := p\<rparr>)
           = layeredPosition u a"
    unfolding l using r'
    by (simp add: layeredPosition_def rainOverride_def Let_def morphedTarget_indep
        rainPosition_indep)
  have v: "vertexPosition u a
           = vadd (rainPosition u a (morphedTarget u a))
                  (interactOffset u (rainPosition u a (morphedTarget u a)))"
    by (simp add: vertexPosition_def Let_def l)
  show ?thesis
    using l l' v by (simp add: rainPosition_def Let_def)
qed

lemma rain_particle_no_hand:
  "vertexPosition (rainUniforms\<lparr>uLeftHandActive := 0\<rparr>) rainParticle
     = \<lparr>vx = pi, vy = 20, vz = 0\<rparr>"
  by (simp add: rainUniforms_def rainParticle_def shader_defs)

lemma rain_particle_hand:
  "vz (vertexPosition rainUniforms rainParticle) = 4 * (245 / 256) * 0.6"
  by (simp add: rainUniforms_def rainParticle_def shader_defs)

lemma rain_particle_sway:
  "vz (vertexPosition (rainUniforms\<lparr>uLeftHandActive := 0, uFormRatio := 1\<rparr>) rainParticle)
     = 0.1"
  by (simp add: rainUniforms_def rainParticle_def shader_defs)

text \<open>
  The raining particle at time 0 with no ratio but rain: before the hand interaction it
  sits at the top of the fall, in its target column.
\<close>

theorem rain_override_witness:
  "layeredPosition rainUniforms rainParticle = \<lparr>vx = pi, vy = 20, vz = 0\<rparr>"
  using rain_override [of rainParticle rainUniforms 0 zeroVec 0 zeroVec 0 zeroVec]
  by (simp add: rainUniforms_def rainParticle_def rainPosition_def morphedTarget_def
      spreadTarget_def swayTarget_def glsl_mod_def initialUniforms_def Let_def)

text \<open>
  The claim as written, that the rain override fixes the final position with priority
  over the sway and the hand-interaction force, fails for a raining particle: an active
  left hand one unit away moves the final position, and so does the sway when the form
  ratio goes from 0 to 1.
\<close>

theorem rain_counterexample:
  "vx (aRandom rainParticle) \<ge> 0.95 \<and> uRainRatio rainUniforms > 0
   \<and> vertexPosition rainUniforms rainParticle
       \<noteq> vertexPosition (rainUniforms\<lparr>uLeftHandActive := 0\<rparr>) rainParticle
   \<and> vertexPosition (rainUniforms\<lparr>uLeftHandActive := 0, uFormRatio := 1\<rparr>) rainParticle
       \<noteq> vertexPosition (rainUniforms\<lparr>uLeftHandActive := 0\<rparr>) rainParticle"
proof -
  have a: "vx (aRandom rainParticle) \<ge> 0.95 \<and> uRainRatio rainUniforms > 0"
    by (simp add: rainParticle_def rainUniforms_def)
  have b: "vz (vertexPosition rainUniforms rainParticle)
           \<noteq> vz (vertexPosition (rainUniforms\<lparr>uLeftHandActive := 0\<rparr>) rainParticle)"
    unfolding rain_particle_hand rain_particle_no_hand by simp
  have c: "vz (vertexPosition (rainUniforms\<lparr>uLeftHandActive := 0, uFormRatio := 1\<rparr>)
                 rainParticle)
           \<noteq> vz (vertexPosition (rainUniforms\<lparr>uLeftHandActive := 0\<rparr>) rainParticle)"
    unfolding rain_particle_sway rain_particle_no_hand by simp
  from a b c show ?thesis by metis
qed

section \<open>Properties of the trunk sampling\<close>












end
